theory Spec2Isabelle
  imports Main "HOL-Library.Char_ord" "HOL-Library.List_Lexorder"
begin

section \<open>Python string primitives used by the command handlers\<close>

text \<open>
  Strings are lists of characters.  The handlers only use a handful of \<open>str\<close> methods;
  each is given here as a recursive function.  Characters are the 8-bit characters of HOL:
  case conversion and digits are the ASCII ones, whitespace is that of Latin-1.
\<close>

definition is_space :: "char \<Rightarrow> bool" where
  \<comment> \<open>\<open>str.isspace\<close> on one character: TAB, LF, VT, FF, CR, FS, GS, RS, US, SPACE, NEL, NBSP.\<close>
  "is_space c \<longleftrightarrow> c \<in> set [CHR 0x09, CHR 0x0A, CHR 0x0B, CHR 0x0C, CHR 0x0D,
                             CHR 0x1C, CHR 0x1D, CHR 0x1E, CHR 0x1F, CHR 0x20, CHR 0x85, CHR 0xA0]"

definition is_digit :: "char \<Rightarrow> bool" where
  "is_digit c \<longleftrightarrow> c \<in> set ''0123456789''"

definition digit_val :: "char \<Rightarrow> nat" where
  \<comment> \<open>The value of a decimal digit (0 for any other character).\<close>
  "digit_val c =
     (case map_of (zip ''0123456789'' [0, 1, 2, 3, 4, 5, 6, 7, 8, 9]) c of
        Some v \<Rightarrow> v | None \<Rightarrow> 0)"

definition digit_char :: "nat \<Rightarrow> char" where
  "digit_char n = ''0123456789'' ! (n mod 10)"

definition lower_char :: "char \<Rightarrow> char" where
  "lower_char c =
     (case map_of (zip ''ABCDEFGHIJKLMNOPQRSTUVWXYZ'' ''abcdefghijklmnopqrstuvwxyz'') c of
        Some l \<Rightarrow> l | None \<Rightarrow> c)"

definition upper_char :: "char \<Rightarrow> char" where
  "upper_char c =
     (case map_of (zip ''abcdefghijklmnopqrstuvwxyz'' ''ABCDEFGHIJKLMNOPQRSTUVWXYZ'') c of
        Some u \<Rightarrow> u | None \<Rightarrow> c)"

definition lower :: "string \<Rightarrow> string" where
  \<comment> \<open>\<open>s.lower()\<close>\<close>
  "lower s = map lower_char s"

definition capitalize :: "string \<Rightarrow> string" where
  \<comment> \<open>\<open>s.capitalize()\<close>: first character upper case, the rest lower case.\<close>
  "capitalize s = (case s of [] \<Rightarrow> [] | c # cs \<Rightarrow> upper_char c # lower cs)"

fun startswith :: "string \<Rightarrow> string \<Rightarrow> bool" where
  \<comment> \<open>\<open>s.startswith(p)\<close>\<close>
  "startswith s [] = True"
| "startswith [] (p # ps) = False"
| "startswith (c # s) (p # ps) = (c = p \<and> startswith s ps)"

fun str_in :: "string \<Rightarrow> string \<Rightarrow> bool" where
  \<comment> \<open>\<open>p in s\<close>: \<open>p\<close> occurs in \<open>s\<close> as a contiguous substring.\<close>
  "str_in p [] = (p = [])"
| "str_in p (c # s) = (startswith (c # s) p \<or> str_in p s)"

definition replace_comma :: "string \<Rightarrow> string" where
  \<comment> \<open>\<open>s.replace(",", " ")\<close>\<close>
  "replace_comma s = map (\<lambda>c. if c = CHR '','' then CHR '' '' else c) s"

definition quoted :: "string \<Rightarrow> string" where
  \<comment> \<open>\<open>f"'{s}'"\<close>\<close>
  "quoted s = [CHR 0x27] @ s @ [CHR 0x27]"

fun join :: "string \<Rightarrow> string list \<Rightarrow> string" where
  \<comment> \<open>\<open>sep.join(xs)\<close>\<close>
  "join sep [] = []"
| "join sep [x] = x"
| "join sep (x # y # ys) = x @ sep @ join sep (y # ys)"

fun split_acc :: "string \<Rightarrow> string \<Rightarrow> string list" where
  \<comment> \<open>The scan of \<open>s.split()\<close>: \<open>cur\<close> is the token being read.\<close>
  "split_acc cur [] = (if cur = [] then [] else [cur])"
| "split_acc cur (c # cs) =
     (if is_space c then (if cur = [] then split_acc [] cs else cur # split_acc [] cs)
      else split_acc (cur @ [c]) cs)"

definition split :: "string \<Rightarrow> string list" where
  \<comment> \<open>\<open>s.split()\<close>: the maximal runs of non-whitespace characters, in order.\<close>
  "split s = split_acc [] s"

fun split_on :: "char \<Rightarrow> string \<Rightarrow> string list" where
  \<comment> \<open>\<open>s.split(d)\<close> for a one-character separator; never returns the empty list.\<close>
  "split_on d [] = [[]]"
| "split_on d (c # cs) =
     (if c = d then [] # split_on d cs
      else (case split_on d cs of [] \<Rightarrow> [[c]] | t # ts \<Rightarrow> (c # t) # ts))"

subsection \<open>\<open>int(s)\<close>, \<open>str(n)\<close> and \<open>float(s)\<close>\<close>

fun eat_digits :: "string \<Rightarrow> string" where
  \<comment> \<open>After one digit: consume \<open>(["_"] digit)*\<close> and return what is left.\<close>
  "eat_digits [] = []"
| "eat_digits [c] = (if is_digit c then [] else [c])"
| "eat_digits (c # d # cs) =
     (if is_digit c then eat_digits (d # cs)
      else if c = CHR ''_'' \<and> is_digit d then eat_digits (d # cs)
      else c # d # cs)"

definition digitpart :: "string \<Rightarrow> string option" where
  \<comment> \<open>\<open>digitpart ::= digit (["_"] digit)*\<close>; the rest of the string, or \<open>None\<close> without a leading digit.\<close>
  "digitpart s = (case s of [] \<Rightarrow> None | c # cs \<Rightarrow> if is_digit c then Some (eat_digits cs) else None)"

definition strip_sign :: "string \<Rightarrow> string" where
  "strip_sign s = (case s of [] \<Rightarrow> [] | c # cs \<Rightarrow> if c = CHR ''+'' \<or> c = CHR ''-'' then cs else s)"

fun digits_value :: "nat \<Rightarrow> string \<Rightarrow> nat" where
  \<comment> \<open>The decimal value of the digits of a digit part (underscores skipped).\<close>
  "digits_value acc [] = acc"
| "digits_value acc (c # cs) =
     (if is_digit c then digits_value (10 * acc + digit_val c) cs else digits_value acc cs)"

definition max_str_digits :: nat where
  \<comment> \<open>\<open>sys.get_int_max_str_digits()\<close>, the default limit of CPython on the digits of a decimal
      literal handed to \<open>int\<close>.\<close>
  "max_str_digits = 4300"

definition py_int :: "string \<Rightarrow> int option" where
  \<comment> \<open>\<open>int(s)\<close> on a token without whitespace: \<open>[sign] digitpart\<close> with at most
      \<open>max_str_digits\<close> digits (underscores not counted), \<open>None\<close> for \<open>ValueError\<close>.\<close>
  "py_int s =
     (let body = strip_sign s in
      if digitpart body = Some [] \<and> length (filter is_digit body) \<le> max_str_digits then
        (if startswith s ''-'' then Some (- int (digits_value 0 body))
         else Some (int (digits_value 0 body)))
      else None)"

fun str_nat :: "nat \<Rightarrow> string" where
  "str_nat n = (if n < 10 then [digit_char n] else str_nat (n div 10) @ [digit_char n])"

declare str_nat.simps [simp del]

definition str_int :: "int \<Rightarrow> string" where
  \<comment> \<open>\<open>str(n)\<close> for an integer.\<close>
  "str_int i = (if i < 0 then CHR ''-'' # str_nat (nat (- i)) else str_nat (nat i))"

definition exponent_opt :: "string \<Rightarrow> bool" where
  \<comment> \<open>The rest of a number is empty or \<open>("e" | "E") [sign] digitpart\<close>.\<close>
  "exponent_opt r =
     (case r of [] \<Rightarrow> True
      | e # r' \<Rightarrow> (e = CHR ''e'' \<or> e = CHR ''E'') \<and> digitpart (strip_sign r') = Some [])"

definition floatnumber :: "string \<Rightarrow> bool" where
  \<comment> \<open>\<open>([digitpart] "." digitpart | digitpart ["."]) [exponent]\<close>\<close>
  "floatnumber s =
     (case digitpart s of
        Some r \<Rightarrow>
          (case r of
             [] \<Rightarrow> True
           | c # r2 \<Rightarrow>
               if c = CHR ''.'' then
                 (case digitpart r2 of Some r3 \<Rightarrow> exponent_opt r3 | None \<Rightarrow> exponent_opt r2)
               else exponent_opt r)
      | None \<Rightarrow>
          (case s of
             [] \<Rightarrow> False
           | c # r2 \<Rightarrow>
               c = CHR ''.'' \<and> (case digitpart r2 of Some r3 \<Rightarrow> exponent_opt r3 | None \<Rightarrow> False)))"

definition py_float_ok :: "string \<Rightarrow> bool" where
  \<comment> \<open>\<open>float(s)\<close> does not raise \<open>ValueError\<close>, for a token without whitespace:
      \<open>[sign] (floatnumber | "inf" | "infinity" | "nan")\<close>, the words in any case.\<close>
  "py_float_ok s =
     (let r = strip_sign s in
      lower r = ''inf'' \<or> lower r = ''infinity'' \<or> lower r = ''nan'' \<or> floatnumber r)"

section \<open>Data model\<close>

text \<open>
  Modelled from the spec: the schema of the \<open>resources\<close> table, which lives in
  \<open>data.sqlite\<close> and is not among the sources.  A row has the columns the handlers read,
  \<open>"Resource location"\<close>, \<open>"Name"\<close>, \<open>resource_type\<close>, \<open>enchantment_max_level\<close> and
  \<open>enchantment_applies_to\<close>; as in the data model of the specification the id, the name
  and the type are strings and the applicable item types an optional string.
\<close>

text \<open>
  Modelled from the spec: the \<open>enchantment_max_level\<close> column holds integers or NULL.
  \<open>pd.read_sql_query\<close> presents such a column as \<open>int64\<close> when no row is NULL, as
  \<open>float64\<close> with NaN for the NULL rows when some are, and as objects (\<open>None\<close>) when all
  are.  A float cell therefore carries an integral value \<open>v.0\<close>.
\<close>

datatype level_cell = Level_int int | Level_float int | Level_nan | Level_none

text \<open>
  The numbers the handlers compute with: a (Python or numpy) integer, a float of integral
  value, or NaN.
\<close>

datatype num = Py_int int | Py_float int | Py_nan

definition str_num :: "num \<Rightarrow> string" where
  \<comment> \<open>\<open>str(x)\<close> and \<open>f"{x}"\<close>: \<open>5\<close> for an integer, \<open>5.0\<close> for a float (of magnitude below
      \<open>1e16\<close>, where the shortest representation is positional), \<open>nan\<close> for NaN.\<close>
  "str_num x = (case x of Py_int v \<Rightarrow> str_int v | Py_float v \<Rightarrow> str_int v @ ''.0''
                | Py_nan \<Rightarrow> ''nan'')"

definition num_less_int :: "num \<Rightarrow> int \<Rightarrow> bool" where
  \<comment> \<open>\<open>x < n\<close>, also written \<open>n > x\<close>: every comparison with NaN is false.\<close>
  "num_less_int x n = (case x of Py_int v \<Rightarrow> v < n | Py_float v \<Rightarrow> v < n | Py_nan \<Rightarrow> False)"

definition py_min :: "int \<Rightarrow> num \<Rightarrow> num" where
  \<comment> \<open>\<open>min(a, x)\<close> for an integer \<open>a\<close>: the second argument only when it is smaller.\<close>
  "py_min a x = (if num_less_int x a then x else Py_int a)"

definition int_of_num :: "num \<Rightarrow> int option" where
  \<comment> \<open>\<open>int(float(x))\<close>; \<open>None\<close> for NaN, where \<open>int\<close> raises
      \<open>ValueError("cannot convert float NaN to integer")\<close>.\<close>
  "int_of_num x = (case x of Py_int v \<Rightarrow> Some v | Py_float v \<Rightarrow> Some v | Py_nan \<Rightarrow> None)"

record resource =
  res_id :: string
  res_name :: string
  resource_type :: string
  enchantment_max_level :: level_cell
  enchantment_applies_to :: "string option"

text \<open>
  The \<open>settings\<close> frame is only ever appended to or updated in place, so its index is the
  default \<open>0..n-1\<close> and a list of rows models it.  The \<open>named_pos\<close> frame is replaced by a
  filtered copy on deletion, which keeps the index labels of the surviving rows: its rows
  carry their label.
\<close>

type_synonym settings = "(string \<times> string) list"
type_synonym named_pos = "(nat \<times> string \<times> string) list"

text \<open>
  \<open>MinecraftServer.__init__\<close> assigns every attribute except \<open>named_pos_df\<close>, which only
  \<open>_load_database\<close> and \<open>namedpos_command\<close> assign: reading it earlier raises
  \<open>AttributeError\<close>.
\<close>

datatype 'a attr = Unset | Attr 'a

record server =
  connected :: bool
  is_windows :: bool
  tmux_session :: string
  default_tmux_session :: string
  resources_df :: "resource list option"
  settings_df :: "settings option"
  named_pos_df :: "named_pos option attr"

datatype event =
    Print string                      \<comment> \<open>a line on the console\<close>
  | Transport_call string             \<comment> \<open>\<open>send_command\<close> entered with this text\<close>
  | Tmux_send_keys string string      \<comment> \<open>\<open>tmux send-keys -t session text\<close> invoked\<close>
  | Sql_exec string "string list"     \<comment> \<open>a statement executed on \<open>data.sqlite\<close>\<close>

datatype exn = ConnectionError | RelayError string | AttributeError

fun exn_text :: "exn \<Rightarrow> string" where
  "exn_text ConnectionError = ''Not connected to Minecraft server''"
| "exn_text (RelayError m) = m"
| "exn_text AttributeError =
     quoted ''MinecraftServer'' @ '' object has no attribute '' @ quoted ''named_pos_df''"

text \<open>
  What the outside world answers: \<open>relay i text\<close> is the outcome of the \<open>i\<close>-th transport
  call of a handler run (\<open>None\<close>: the \<open>tmux\<close> invocation succeeded, \<open>Some m\<close>: it raised with
  message \<open>m\<close>), \<open>sql stmt params\<close> the outcome of a database statement.
\<close>

record world =
  relay :: "nat \<Rightarrow> string \<Rightarrow> string option"
  sql :: "string \<Rightarrow> string list \<Rightarrow> string option"

section \<open>Session transport (\<open>minecraft.py\<close>)\<close>

definition init_server :: "bool \<Rightarrow> string \<Rightarrow> server" where
  "init_server win session =
     \<lparr>connected = False, is_windows = win, tmux_session = session,
      default_tmux_session = session, resources_df = None, settings_df = None,
      named_pos_df = Unset\<rparr>"

datatype db_outcome =
    Db_loaded "resource list" settings "(string \<times> string) list"
  | Db_sqlite_error string "resource list option" "settings option"
  | Db_other_error "resource list option" "settings option"

definition load_database :: "db_outcome \<Rightarrow> server \<Rightarrow> server \<times> event list \<times> bool option" where
  \<comment> \<open>\<open>_load_database\<close>; the third component is the returned flag, \<open>None\<close> when an exception
      other than \<open>sqlite3.Error\<close> leaves the function.  A failure keeps the tables read so far.\<close>
  "load_database db srv =
     (case db of
        Db_loaded res st np \<Rightarrow>
          (let srv1 = srv\<lparr>resources_df := Some res, settings_df := Some st,
                          named_pos_df := Attr (Some (zip [0..<length np] np))\<rparr>;
               tmux_setting = filter (\<lambda>r. fst r = ''tmux_session'') st
           in ((if st \<noteq> [] then
                  (if tmux_setting \<noteq> [] then srv1\<lparr>tmux_session := snd (hd tmux_setting)\<rparr>
                   else srv1\<lparr>tmux_session := default_tmux_session srv1\<rparr>)
                else srv1), [], Some True))
      | Db_sqlite_error m res st \<Rightarrow>
          (srv\<lparr>resources_df := res, settings_df := st\<rparr>,
           [Print (''[yellow]Database warning: '' @ m)], Some False)
      | Db_other_error res st \<Rightarrow>
          (srv\<lparr>resources_df := res, settings_df := st\<rparr>, [], None))"

record startup_env =
  db_load :: db_outcome
  process_scan :: "(nat \<times> string) option option"  \<comment> \<open>\<open>None\<close>: the process scan raises\<close>
  tmux_has_session :: bool

definition startup :: "startup_env \<Rightarrow> server \<Rightarrow> server \<times> event list \<times> bool" where
  \<comment> \<open>\<open>MinecraftServer.startup\<close>: every exception on the way is swallowed and \<open>True\<close> returned.\<close>
  "startup env srv =
     (case load_database (db_load env) srv of
        (srv1, evs1, None) \<Rightarrow> (srv1, evs1, True)
      | (srv1, evs1, Some _) \<Rightarrow>
          (case process_scan env of
             None \<Rightarrow> (srv1, evs1, True)
           | Some found \<Rightarrow>
               (let evs2 = (case found of
                              Some (pid, cmd) \<Rightarrow>
                                if pid \<noteq> 0 then [Print (''[dim]Command: '' @ cmd)] else []
                            | None \<Rightarrow> [])
                in if \<not> is_windows srv1 then
                     (if tmux_has_session env then (srv1\<lparr>connected := True\<rparr>, evs1 @ evs2, True)
                      else (srv1, evs1 @ evs2, True))
                   else (srv1\<lparr>connected := True\<rparr>, evs1 @ evs2, True))))"

definition send_command :: "server \<Rightarrow> string option \<Rightarrow> string \<Rightarrow> event list \<times> (exn + string)" where
  \<comment> \<open>\<open>MinecraftServer.send_command\<close>; \<open>outcome\<close> is what the \<open>tmux\<close> invocation does if reached.\<close>
  "send_command srv outcome command =
     (if \<not> connected srv then ([Transport_call command], Inl ConnectionError)
      else if is_windows srv then
        ([Transport_call command,
          Print (''[dim]Would send command on Linux: '' @ command @ [CHR 0x0A])],
         Inr ''Command logged (Windows development mode)'')
      else
        (case outcome of
           None \<Rightarrow>
             ([Transport_call command, Tmux_send_keys (tmux_session srv) (command @ [CHR 0x0A])],
              Inr ''Command sent successfully'')
         | Some m \<Rightarrow>
             ([Transport_call command, Tmux_send_keys (tmux_session srv) (command @ [CHR 0x0A]),
               Print (''[red]Failed to send command: '' @ m)],
              Inl (RelayError m))))"

definition send_and_print :: "server \<Rightarrow> string option \<Rightarrow> string \<Rightarrow> string \<Rightarrow> event list" where
  \<comment> \<open>The tail shared by the single-command handlers:
      \<open>result = await send_command(mc_command); print(f"[green]{result}")\<close> inside
      \<open>try ... except Exception as e: print(f"[red]Error ...: {e}")\<close>.\<close>
  "send_and_print srv outcome err mc_command =
     (case send_command srv outcome mc_command of
        (evs, Inr result) \<Rightarrow> evs @ [Print (''[green]'' @ result)]
      | (evs, Inl e) \<Rightarrow> evs @ [Print (err @ exn_text e)])"

definition is_tmux :: "event \<Rightarrow> bool" where
  "is_tmux e = (case e of Tmux_send_keys _ _ \<Rightarrow> True | _ \<Rightarrow> False)"

section \<open>Argument validation and suggestions (\<open>commands.py\<close>)\<close>

definition id_contains :: "string \<Rightarrow> resource \<Rightarrow> bool" where
  \<comment> \<open>\<open>tok.lower() in row["Resource location"].lower()\<close>\<close>
  "id_contains tok row \<longleftrightarrow> str_in (lower tok) (lower (res_id row))"

fun suggest_loop :: "(resource \<Rightarrow> 'a) \<Rightarrow> string \<Rightarrow> resource list \<Rightarrow> 'a list \<Rightarrow> 'a list" where
  \<comment> \<open>The suggestion loop of \<open>give\<close>, \<open>enchant\<close> and \<open>effect\<close>:
      \<open>for _, row in df.iterrows(): if tok.lower() in row["Resource location"].lower():
        suggestions.append(mk(row)); if len(suggestions) >= 5: break\<close>\<close>
  "suggest_loop mk tok [] suggestions = suggestions"
| "suggest_loop mk tok (row # rows) suggestions =
     (if id_contains tok row then
        (let suggestions' = suggestions @ [mk row] in
         if length suggestions' \<ge> 5 then suggestions' else suggest_loop mk tok rows suggestions')
      else suggest_loop mk tok rows suggestions)"

definition or_one :: "level_cell \<Rightarrow> num" where
  \<comment> \<open>\<open>row["enchantment_max_level"] or 1\<close>: the cell when it is truthy, else \<open>1\<close>.  Zero and
      \<open>None\<close> are falsy; NaN is truthy and stays.\<close>
  "or_one m =
     (case m of
        Level_int v \<Rightarrow> if v = 0 then Py_int 1 else Py_int v
      | Level_float v \<Rightarrow> if v = 0 then Py_int 1 else Py_float v
      | Level_nan \<Rightarrow> Py_nan
      | Level_none \<Rightarrow> Py_int 1)"

definition is_block_or_item :: "resource \<Rightarrow> bool" where
  \<comment> \<open>\<open>df["resource_type"].isin(["block", "item"])\<close>\<close>
  "is_block_or_item r \<longleftrightarrow> resource_type r \<in> set [''block'', ''item'']"

definition is_type_ci :: "string \<Rightarrow> resource \<Rightarrow> bool" where
  \<comment> \<open>\<open>df["resource_type"].str.lower() == ty\<close>\<close>
  "is_type_ci ty r \<longleftrightarrow> lower (resource_type r) = ty"

definition id_matches :: "string \<Rightarrow> resource \<Rightarrow> bool" where
  \<comment> \<open>\<open>df["Resource location"].str.lower() == tok.lower()\<close>\<close>
  "id_matches tok r \<longleftrightarrow> lower (res_id r) = lower tok"

definition did_you_mean :: "('a \<Rightarrow> string) \<Rightarrow> 'a list \<Rightarrow> event list" where
  \<comment> \<open>\<open>if suggestions: print("[yellow]Did you mean one of these?"); for s in suggestions:
      print(line(s))\<close>\<close>
  "did_you_mean line suggestions =
     (if suggestions \<noteq> [] then
        Print ''[yellow]Did you mean one of these?'' # map (\<lambda>s. Print (line s)) suggestions
      else [])"

definition give_line :: "string \<times> string \<times> string \<Rightarrow> string" where
  \<comment> \<open>\<open>f"  - {resource_loc} ({resource_type}: {name})"\<close>\<close>
  "give_line s =
     (case s of (resource_loc, name, rtype) \<Rightarrow>
        ''  - '' @ resource_loc @ '' ('' @ rtype @ '': '' @ name @ '')'')"

definition enchant_line :: "string \<times> string \<times> num \<Rightarrow> string" where
  \<comment> \<open>\<open>f"  - {resource_loc} ({name}, Max Level: {max_level})"\<close>\<close>
  "enchant_line s =
     (case s of (resource_loc, name, max_level) \<Rightarrow>
        ''  - '' @ resource_loc @ '' ('' @ name @ '', Max Level: '' @ str_num max_level @ '')'')"

definition effect_line :: "string \<times> string \<Rightarrow> string" where
  \<comment> \<open>\<open>f"  - {resource_loc} ({name})"\<close>\<close>
  "effect_line s = (case s of (resource_loc, name) \<Rightarrow> ''  - '' @ resource_loc @ '' ('' @ name @ '')'')"

definition give_suggestions :: "string \<Rightarrow> resource list \<Rightarrow> (string \<times> string \<times> string) list" where
  "give_suggestions item df =
     suggest_loop (\<lambda>row. (res_id row, res_name row, capitalize (resource_type row))) item
       (filter is_block_or_item df) []"

definition give_command :: "world \<Rightarrow> server \<Rightarrow> string \<Rightarrow> event list" where
  "give_command w srv cmd_line =
     (case split cmd_line of
        _ # player # item # rest \<Rightarrow>
          (let quantity = (case rest of [] \<Rightarrow> ''1'' | q # _ \<Rightarrow> q);
               err = ''[red]Error giving items: ''
           in case resources_df srv of
                None \<Rightarrow>
                  (let mc_command = ''give '' @ player @ '' '' @ item @ '' '' @ quantity
                   in send_and_print srv (relay w 0 mc_command) err mc_command)
              | Some df \<Rightarrow>
                  (let item_data = filter (\<lambda>r. is_block_or_item r \<and> id_matches item r) df
                   in if item_data = [] then
                        Print (''[red]Invalid item: '' @ item) #
                        did_you_mean give_line (give_suggestions item df)
                      else
                        (let item' = res_id (hd item_data);
                             mc_command = ''give '' @ player @ '' '' @ item' @ '' '' @ quantity
                         in send_and_print srv (relay w 0 mc_command) err mc_command)))
      | _ \<Rightarrow> [Print ''[yellow]Usage: give <playername> <item> [quantity]''])"

definition enchant_suggestions :: "string \<Rightarrow> resource list \<Rightarrow> (string \<times> string \<times> num) list" where
  "enchant_suggestions enchantment df =
     suggest_loop (\<lambda>row. (res_id row, res_name row, or_one (enchantment_max_level row)))
       enchantment (filter (is_type_ci ''enchantment'') df) []"

definition validate_level :: "num \<Rightarrow> string \<Rightarrow> event list \<times> string" where
  \<comment> \<open>The \<open># Validate level\<close> block of \<open>enchant_command\<close>; \<open>max_level\<close> is the value of
      \<open>enchant_data.iloc[0]["enchantment_max_level"] or 1\<close>, used as it comes from the frame.\<close>
  "validate_level max_level level =
     (case py_int level of
        Some level_num \<Rightarrow>
          if level_num < 1 \<or> num_less_int max_level level_num then
            ([Print (''[yellow]Warning: Level should be between 1 and '' @ str_num max_level)],
             str_num (py_min (max 1 level_num) max_level))
          else ([], level)
      | None \<Rightarrow> ([Print ''[yellow]Invalid level, using 1''], ''1''))"

definition enchant_command :: "world \<Rightarrow> server \<Rightarrow> string \<Rightarrow> event list" where
  "enchant_command w srv cmd_line =
     (case split cmd_line of
        _ # player # enchantment # rest \<Rightarrow>
          (let level = (case rest of [] \<Rightarrow> ''1'' | l # _ \<Rightarrow> l);
               err = ''[red]Error applying enchantment: ''
           in case resources_df srv of
                None \<Rightarrow>
                  (let mc_command = ''enchant '' @ player @ '' '' @ enchantment @ '' '' @ level
                   in send_and_print srv (relay w 0 mc_command) err mc_command)
              | Some df \<Rightarrow>
                  (let enchant_data =
                         filter (\<lambda>r. is_type_ci ''enchantment'' r \<and> id_matches enchantment r) df
                   in if enchant_data = [] then
                        Print (''[red]Invalid enchantment: '' @ enchantment) #
                        did_you_mean enchant_line (enchant_suggestions enchantment df)
                      else
                        (let enchantment' = res_id (hd enchant_data);
                             max_level = or_one (enchantment_max_level (hd enchant_data));
                             (warn, level') = validate_level max_level level;
                             mc_command =
                               ''enchant '' @ player @ '' '' @ enchantment' @ '' '' @ level'
                         in warn @ send_and_print srv (relay w 0 mc_command) err mc_command)))
      | _ \<Rightarrow> [Print ''[yellow]Usage: enchant <playername> <enchantment> [level]''])"

definition effect_suggestions :: "string \<Rightarrow> resource list \<Rightarrow> (string \<times> string) list" where
  "effect_suggestions effect df =
     suggest_loop (\<lambda>row. (res_id row, res_name row)) effect
       (filter (is_type_ci ''effect'') df) []"

definition validate_seconds :: "string \<Rightarrow> event list \<times> string" where
  \<comment> \<open>The \<open># Validate seconds\<close> block of \<open>effect_command\<close>.\<close>
  "validate_seconds seconds =
     (case py_int seconds of
        Some seconds_num \<Rightarrow>
          if seconds_num < 1 then
            ([Print ''[yellow]Warning: Duration must be at least 1 second''], ''1'')
          else ([], seconds)
      | None \<Rightarrow> ([Print ''[yellow]Invalid duration, using 30 seconds''], ''30''))"

definition validate_amplifier :: "string \<Rightarrow> event list \<times> string" where
  \<comment> \<open>The \<open># Validate amplifier\<close> block of \<open>effect_command\<close>.\<close>
  "validate_amplifier amplifier =
     (case py_int amplifier of
        Some amp_num \<Rightarrow>
          if amp_num < 0 \<or> amp_num > 255 then
            ([Print ''[yellow]Warning: Amplifier must be between 0 and 255''],
             str_int (min (max 0 amp_num) 255))
          else ([], amplifier)
      | None \<Rightarrow> ([Print ''[yellow]Invalid amplifier, using 0''], ''0''))"

definition effect_command :: "world \<Rightarrow> server \<Rightarrow> string \<Rightarrow> event list" where
  "effect_command w srv cmd_line =
     (case split cmd_line of
        _ # player # effect # rest \<Rightarrow>
          (let seconds = (if length rest > 0 then rest ! 0 else ''30'');
               amplifier = (if length rest > 1 then rest ! 1 else ''0'');
               hide_particles = (if length rest > 2 then rest ! 2 else ''true'');
               err = ''[red]Error applying effect: ''
           in case resources_df srv of
                None \<Rightarrow>
                  (let mc_command = ''effect '' @ player @ '' '' @ effect @ '' '' @ seconds
                                    @ '' '' @ amplifier @ '' '' @ hide_particles
                   in send_and_print srv (relay w 0 mc_command) err mc_command)
              | Some df \<Rightarrow>
                  (let effect_data =
                         filter (\<lambda>r. is_type_ci ''effect'' r \<and> id_matches effect r) df
                   in if effect_data = [] then
                        Print (''[red]Invalid effect: '' @ effect) #
                        did_you_mean effect_line (effect_suggestions effect df)
                      else
                        (let effect' = res_id (hd effect_data);
                             (warn1, seconds') = validate_seconds seconds;
                             (warn2, amplifier') = validate_amplifier amplifier;
                             mc_command = ''effect '' @ player @ '' '' @ effect' @ '' '' @ seconds'
                                          @ '' '' @ amplifier' @ '' '' @ hide_particles
                         in warn1 @ warn2 @ send_and_print srv (relay w 0 mc_command) err mc_command)))
      | _ \<Rightarrow>
          [Print ''[yellow]Usage: effect <player> <effect> [seconds] [amplifier] [hideParticles]''])"

subsection \<open>\<open>maxenchant\<close>\<close>

definition strip :: "string \<Rightarrow> string" where
  \<comment> \<open>\<open>s.strip()\<close>\<close>
  "strip s = rev (dropWhile is_space (rev (dropWhile is_space s)))"

definition applies :: "string \<Rightarrow> resource \<Rightarrow> bool" where
  \<comment> \<open>\<open>"any" in applies_to or itemtype_lower in applies_to\<close>, with
      \<open>applies_to = str(row["enchantment_applies_to"]).lower()\<close>\<close>
  "applies itemtype row =
     (case enchantment_applies_to row of
        None \<Rightarrow> False
      | Some a \<Rightarrow> str_in ''any'' (lower a) \<or> str_in (lower itemtype) (lower a))"

definition enchantments_of :: "resource list \<Rightarrow> resource list" where
  \<comment> \<open>\<open>enchantments_df\<close>: type exactly \<open>"enchantment"\<close>, id and \<open>applies_to\<close> not null.\<close>
  "enchantments_of df =
     filter (\<lambda>r. resource_type r = ''enchantment'' \<and> enchantment_applies_to r \<noteq> None) df"

fun matching_loop :: "string \<Rightarrow> resource list \<Rightarrow> (string \<times> string \<times> int) list \<Rightarrow> (string \<times> string \<times> int) list option" where
  \<comment> \<open>The first loop of \<open>maxenchant_command\<close>, which appends
      \<open>{"id", "name", "max_level": int(float(row["enchantment_max_level"] or 1))}\<close> for every
      matching row; \<open>None\<close> when the conversion raises \<open>ValueError\<close>.\<close>
  "matching_loop itemtype [] matching = Some matching"
| "matching_loop itemtype (row # rows) matching =
     (if applies itemtype row then
        (case int_of_num (or_one (enchantment_max_level row)) of
           None \<Rightarrow> None
         | Some max_level \<Rightarrow>
             matching_loop itemtype rows (matching @ [(res_id row, res_name row, max_level)]))
      else matching_loop itemtype rows matching)"

definition matching_enchants :: "string \<Rightarrow> resource list \<Rightarrow> (string \<times> string \<times> int) list option" where
  "matching_enchants itemtype df = matching_loop itemtype (enchantments_of df) []"

definition enchant_text :: "string \<Rightarrow> string \<times> string \<times> int \<Rightarrow> string" where
  \<comment> \<open>\<open>f"enchant {player} {enchant['id']} {enchant['max_level']}"\<close>\<close>
  "enchant_text player e = ''enchant '' @ player @ '' '' @ fst e @ '' '' @ str_int (snd (snd e))"

definition apply_enchant :: "world \<Rightarrow> server \<Rightarrow> string \<Rightarrow> nat \<Rightarrow> string \<times> string \<times> int \<Rightarrow> event list" where
  \<comment> \<open>The body of the second loop: \<open>try: result = await send_command(mc_command); print(...)
      except Exception as e: print(...)\<close>; \<open>i\<close> is the number of this transport call.\<close>
  "apply_enchant w srv player i e =
     (let mc_command = enchant_text player e in
      case send_command srv (relay w i mc_command) mc_command of
        (evs, Inr result) \<Rightarrow>
          evs @ [Print (''[green]'' @ fst (snd e) @ '' (Level '' @ str_int (snd (snd e))
                        @ ''): '' @ result)]
      | (evs, Inl ex) \<Rightarrow>
          evs @ [Print (''[red]Failed to apply '' @ fst (snd e) @ '': '' @ exn_text ex)])"

fun apply_enchants :: "world \<Rightarrow> server \<Rightarrow> string \<Rightarrow> nat \<Rightarrow> (string \<times> string \<times> int) list \<Rightarrow> event list" where
  \<comment> \<open>\<open>for enchant in matching_enchants: ...\<close>; no exception leaves the body, so every
      element is visited.\<close>
  "apply_enchants w srv player i [] = []"
| "apply_enchants w srv player i (e # es) =
     apply_enchant w srv player i e @ apply_enchants w srv player (Suc i) es"

definition valid_item_types :: "resource list \<Rightarrow> string list" where
  \<comment> \<open>\<open>sorted(item_types)\<close> of the "no enchantments found" branch.\<close>
  "valid_item_types df =
     sort (remdups (concat (map (\<lambda>row. case enchantment_applies_to row of
                                          None \<Rightarrow> []
                                        | Some a \<Rightarrow> if a = [] then []
                                                    else map strip (split_on (CHR '','') a))
                                (enchantments_of df))))"

definition maxenchant_command :: "world \<Rightarrow> server \<Rightarrow> string \<Rightarrow> event list" where
  "maxenchant_command w srv cmd_line =
     (case split cmd_line of
        _ # a # b # cs \<Rightarrow>
          (let player = last (a # b # cs);
               itemtype = join '' '' (butlast (a # b # cs))
           in case resources_df srv of
                None \<Rightarrow> []
              | Some df \<Rightarrow>
                  (case matching_enchants itemtype df of
                     None \<Rightarrow>
                       [Print (''[red]Error applying enchantments: ''
                               @ ''cannot convert float NaN to integer'')]
                   | Some matching \<Rightarrow>
                      if matching = [] then
                        Print (''[yellow]No enchantments found for item type: '' @ itemtype) #
                        Print ''[yellow]Valid item types:'' #
                        map (\<lambda>t. Print (''  - '' @ t)) (valid_item_types df)
                      else
                        Print (''[green]Applying '' @ str_int (int (length matching))
                               @ '' enchantments to '' @ player @ [CHR 0x27] @ ''s '' @ itemtype
                               @ ''...'') #
                        apply_enchants w srv player 0 matching
                        @ [Print ''[green]Finished applying enchantments!'']))
      | _ \<Rightarrow> [Print ''[yellow]Usage: maxenchant <itemtype> <playername>''])"

subsection \<open>\<open>namedpos\<close> and \<open>tp\<close>\<close>

definition pos_rows :: "string \<Rightarrow> named_pos \<Rightarrow> named_pos" where
  \<comment> \<open>\<open>df[df["pos_name"] == name]\<close>\<close>
  "pos_rows name df = filter (\<lambda>r. fst (snd r) = name) df"

definition df_loc_set :: "named_pos \<Rightarrow> nat \<Rightarrow> string \<times> string \<Rightarrow> named_pos" where
  \<comment> \<open>\<open>df.loc[k] = row\<close>: overwrite the row labelled \<open>k\<close>, or append one with that label.\<close>
  "df_loc_set df k row =
     (if k \<in> set (map fst df) then map (\<lambda>r. if fst r = k then (k, row) else r) df
      else df @ [(k, row)])"

definition coord_tokens :: "string \<Rightarrow> string list" where
  \<comment> \<open>\<open>[x for x in s.replace(",", " ").split() if x]\<close>\<close>
  "coord_tokens s = filter (\<lambda>x. x \<noteq> []) (split (replace_comma s))"

definition after_sql :: "world \<Rightarrow> string \<Rightarrow> string list \<Rightarrow> string \<Rightarrow> event list" where
  \<comment> \<open>\<open>conn.execute(stmt, params); conn.commit()\<close> inside the handler's \<open>try\<close>.\<close>
  "after_sql w stmt params err =
     Sql_exec stmt params # (case sql w stmt params of None \<Rightarrow> [] | Some m \<Rightarrow> [Print (err @ m)])"

definition sql_insert_named_pos :: string where
  "sql_insert_named_pos = ''INSERT INTO named_pos (pos_name, pos_value) VALUES (?, ?)''"

definition sql_delete_named_pos :: string where
  "sql_delete_named_pos = ''DELETE FROM named_pos WHERE pos_name = ?''"

definition namedpos_add :: "world \<Rightarrow> server \<Rightarrow> named_pos \<Rightarrow> string \<Rightarrow> string list \<Rightarrow> server \<times> event list" where
  \<comment> \<open>The \<open>if action == "add":\<close> branch of \<open>namedpos_command\<close> with its database write;
      \<open>srv\<close> already holds the frame \<open>df\<close>, \<open>tail\<close> is \<open>parts[3:]\<close>.\<close>
  "namedpos_add w srv df pos_name tail =
     (let coords = coord_tokens (join '' '' tail) in
      if length coords \<noteq> 3 then
        (srv, [Print ''[yellow]Position must be three numbers (x y z)''])
      else if \<not> list_all py_float_ok coords then
        (srv, [Print ''[yellow]Position coordinates must be numbers''])
      else
        (let pos_value = join '' '' coords;
             existing = pos_rows pos_name df
         in if existing \<noteq> [] then
              (srv, [Print (''[yellow]Position '' @ quoted pos_name
                            @ '' already exists with value '' @ snd (snd (hd existing)))])
            else
              (srv\<lparr>named_pos_df := Attr (Some (df_loc_set df (length df) (pos_name, pos_value)))\<rparr>,
               Print (''[green]Added position '' @ quoted pos_name @ '' with coordinates ''
                      @ pos_value) #
               after_sql w sql_insert_named_pos [pos_name, pos_value]
                 ''[red]Error managing named positions: '')))"

definition namedpos_del :: "world \<Rightarrow> server \<Rightarrow> named_pos \<Rightarrow> string \<Rightarrow> server \<times> event list" where
  \<comment> \<open>The \<open>else:  # del\<close> branch of \<open>namedpos_command\<close> with its database write.\<close>
  "namedpos_del w srv df pos_name =
     (if pos_rows pos_name df = [] then
        (srv, [Print (''[yellow]Position '' @ quoted pos_name @ '' does not exist'')])
      else
        (srv\<lparr>named_pos_df := Attr (Some (filter (\<lambda>r. fst (snd r) \<noteq> pos_name) df))\<rparr>,
         Print (''[green]Removed position '' @ quoted pos_name) #
         after_sql w sql_delete_named_pos [pos_name]
           ''[red]Error managing named positions: ''))"

definition namedpos_command :: "world \<Rightarrow> server \<Rightarrow> string \<Rightarrow> server \<times> event list" where
  "namedpos_command w srv cmd_line =
     (case split cmd_line of
        _ # act # rest \<Rightarrow>
          (let action = lower act in
           if action \<notin> set [''add'', ''del'', ''list''] then
             (srv, [Print (''[yellow]Action must be either '' @ quoted ''add'' @ '', ''
                           @ quoted ''del'' @ '', or '' @ quoted ''list'')])
           else
             (case named_pos_df srv of
                Unset \<Rightarrow>
                  (srv, [Print (''[red]Error managing named positions: ''
                                @ exn_text AttributeError)])
              | Attr stored \<Rightarrow>
                  (let df = (case stored of None \<Rightarrow> [] | Some d \<Rightarrow> d);
                       srv1 = srv\<lparr>named_pos_df := Attr (Some df)\<rparr>
                   in if action = ''list'' then
                        (srv1,
                         if length df = 0 then [Print ''[yellow]No named positions defined'']
                         else Print (CHR 0x0A # ''[green]Named Positions:'') #
                              map (\<lambda>r. Print (''  '' @ fst (snd r) @ '': '' @ snd (snd r))) df
                              @ [Print []])
                      else
                        (case rest of
                           pos_name # c # cs \<Rightarrow>
                             if action = ''add'' then namedpos_add w srv1 df pos_name (c # cs)
                             else namedpos_del w srv1 df pos_name
                         | _ \<Rightarrow>
                             (srv1, [Print ''[yellow]Usage: namedpos add|del <pos_name> <x y z>''])))))
      | _ \<Rightarrow>
          (srv, [Print ''[yellow]Usage: namedpos list | namedpos add|del <pos_name> <x y z>'']))"

definition check_coord :: "string \<Rightarrow> string option" where
  \<comment> \<open>One round of the validation loop of \<open>tp_command\<close>: the message printed before the
      handler returns, or \<open>None\<close> when the loop goes on.\<close>
  "check_coord coord =
     (if coord \<noteq> ''~'' \<and> \<not> startswith coord ''~-'' \<and> \<not> startswith coord ''~+'' then
        (if py_float_ok coord then None
         else if startswith coord ''~'' then
           (if py_float_ok (drop 1 coord) then None
            else Some ''[yellow]Invalid relative coordinate format. Use ~ or ~<number>'')
         else Some ''[yellow]Position coordinates must be numbers or use tilde notation (~)'')
      else None)"

fun check_coords :: "string list \<Rightarrow> string option" where
  "check_coords [] = None"
| "check_coords (coord # rest) =
     (case check_coord coord of Some msg \<Rightarrow> Some msg | None \<Rightarrow> check_coords rest)"

definition resolve_destination :: "named_pos option \<Rightarrow> string \<Rightarrow> string" where
  \<comment> \<open>The \<open># Check if it's a named position\<close> block.\<close>
  "resolve_destination stored destination =
     (case stored of
        None \<Rightarrow> destination
      | Some df \<Rightarrow>
          (let pos_match = pos_rows destination df in
           if pos_match \<noteq> [] then snd (snd (hd pos_match)) else destination))"

definition tp_command :: "world \<Rightarrow> server \<Rightarrow> string \<Rightarrow> event list" where
  "tp_command w srv cmd_line =
     (case split cmd_line of
        _ # player # d # ds \<Rightarrow>
          (let destination = join '' '' (d # ds); err = ''[red]Error teleporting player: '' in
           if startswith destination ''@'' then
             (let mc_command = ''tp '' @ player @ '' '' @ drop 1 destination
              in send_and_print srv (relay w 0 mc_command) err mc_command)
           else
             (case named_pos_df srv of
                Unset \<Rightarrow> [Print (err @ exn_text AttributeError)]
              | Attr stored \<Rightarrow>
                  (let coord_parts = coord_tokens (resolve_destination stored destination) in
                   if length coord_parts \<noteq> 3 then
                     [Print ''[yellow]Position must be three coordinates (x y z)'']
                   else
                     (case check_coords coord_parts of
                        Some msg \<Rightarrow> [Print msg]
                      | None \<Rightarrow>
                          (let mc_command = ''tp '' @ player @ '' '' @ join '' '' coord_parts
                           in send_and_print srv (relay w 0 mc_command) err mc_command)))))
      | _ \<Rightarrow> [Print ''[yellow]Usage: tp <playername> <x y z | named_pos | @playername>''])"

subsection \<open>\<open>player\<close>\<close>

definition current_players_of :: "settings \<Rightarrow> string set" where
  \<comment> \<open>\<open>set(value.split(",")) if value else set()\<close> for the first \<open>players\<close> row, the empty
      set without such a row.\<close>
  "current_players_of df =
     (let players_setting = filter (\<lambda>r. fst r = ''players'') df in
      if players_setting \<noteq> [] then
        (if snd (hd players_setting) \<noteq> [] then set (split_on (CHR '','') (snd (hd players_setting)))
         else {})
      else {})"

fun set_first_players :: "string \<Rightarrow> settings \<Rightarrow> settings" where
  \<comment> \<open>\<open>settings_df.loc[players_setting.index[0], "value"] = new_value\<close>\<close>
  "set_first_players v [] = []"
| "set_first_players v (r # rs) =
     (if fst r = ''players'' then (fst r, v) # rs else r # set_first_players v rs)"

definition players_value :: "string set \<Rightarrow> string" where
  \<comment> \<open>\<open>",".join(sorted(current_players))\<close>\<close>
  "players_value ps = join '','' (sorted_list_of_set ps)"

definition sql_insert_players :: string where
  "sql_insert_players =
     ''INSERT INTO settings (setting, value) VALUES ('' @ quoted ''players'' @ '', ?)''"

definition sql_update_players :: string where
  "sql_update_players = ''UPDATE settings SET value = ? WHERE setting = '' @ quoted ''players''"

definition save_players :: "world \<Rightarrow> server \<Rightarrow> settings \<Rightarrow> string set \<Rightarrow> server \<times> event list" where
  \<comment> \<open>\<open># Update or insert the players setting\<close> and \<open># Save to database\<close>.\<close>
  "save_players w srv df ps =
     (let new_value = players_value ps;
          err = ''[red]Error managing players list: ''
      in if filter (\<lambda>r. fst r = ''players'') df = [] then
           (srv\<lparr>settings_df := Some (df @ [(''players'', new_value)])\<rparr>,
            after_sql w sql_insert_players [new_value] err)
         else
           (srv\<lparr>settings_df := Some (set_first_players new_value df)\<rparr>,
            after_sql w sql_update_players [new_value] err))"

definition player_command :: "world \<Rightarrow> server \<Rightarrow> string \<Rightarrow> server \<times> event list" where
  "player_command w srv cmd_line =
     (case split cmd_line of
        _ # act # rest \<Rightarrow>
          (let action = lower act in
           if action \<notin> set [''add'', ''del'', ''list''] then
             (srv, [Print (''[yellow]Action must be either '' @ quoted ''add'' @ '', ''
                           @ quoted ''del'' @ '', or '' @ quoted ''list'')])
           else
             (let df = (case settings_df srv of None \<Rightarrow> [] | Some d \<Rightarrow> d);
                  srv1 = srv\<lparr>settings_df := Some df\<rparr>;
                  current_players = current_players_of df
              in if action = ''list'' then
                   (srv1,
                    if current_players = {} then [Print ''[yellow]No players in the list'']
                    else Print (CHR 0x0A # ''[green]Current players:'') #
                         map (\<lambda>p. Print (''  - '' @ p)) (sorted_list_of_set current_players)
                         @ [Print []])
                 else
                   (case rest of
                      [] \<Rightarrow> (srv1, [Print ''[yellow]Usage: player add|del <playername>''])
                    | playername # _ \<Rightarrow>
                        if action = ''add'' then
                          (if playername \<in> current_players then
                             (srv1, [Print (''[yellow]Player '' @ quoted playername
                                            @ '' is already in the list'')])
                           else
                             (case save_players w srv1 df (insert playername current_players) of
                                (srv2, evs) \<Rightarrow>
                                  (srv2, Print (''[green]Added player '' @ quoted playername
                                                @ '' to the list'') # evs)))
                        else
                          (if playername \<notin> current_players then
                             (srv1, [Print (''[yellow]Player '' @ quoted playername
                                            @ '' is not in the list'')])
                           else
                             (case save_players w srv1 df (current_players - {playername}) of
                                (srv2, evs) \<Rightarrow>
                                  (srv2, Print (''[green]Removed player '' @ quoted playername
                                                @ '' from the list'') # evs))))))
      | _ \<Rightarrow> (srv, [Print ''[yellow]Usage: player list | player add|del <playername>'']))"

section \<open>Command dispatcher (\<open>console.py\<close>)\<close>

text \<open>
  A handler is a coroutine taking the typed line.  Besides its effects it either returns,
  raises an \<open>Exception\<close> with a message, is interrupted (\<open>EOFError\<close>, \<open>KeyboardInterrupt\<close>)
  or raises \<open>SystemExit\<close>, which no clause of the loop catches.
\<close>

datatype outcome = Returned | Raised string | Interrupted | System_exit

datatype ctl = Continue | Break | Exit

type_synonym 's handler = "string \<Rightarrow> 's \<Rightarrow> 's \<times> event list \<times> outcome"

definition register_command :: "(string \<rightharpoonup> 's handler) \<Rightarrow> string \<Rightarrow> 's handler \<Rightarrow> (string \<rightharpoonup> 's handler)" where
  \<comment> \<open>\<open>self.commands[name] = {"func": func, "help": help_text}\<close>\<close>
  "register_command commands name func = commands(name \<mapsto> func)"

definition console_step :: "(string \<rightharpoonup> 's handler) \<Rightarrow> string \<Rightarrow> 's \<Rightarrow> 's \<times> event list \<times> ctl" where
  \<comment> \<open>One round of the \<open>while True\<close> loop of \<open>MinecraftConsole.start\<close> on the line \<open>command\<close>
      read from the prompt.\<close>
  "console_step commands command s =
     (if command = [] then (s, [], Continue)
      else
        (case split command of
           [] \<Rightarrow> (s, [Print ''An error occurred: list index out of range''], Continue)
         | cmd_name # _ \<Rightarrow>
             (case commands cmd_name of
                Some func \<Rightarrow>
                  (case func command s of
                     (s', evs, Returned) \<Rightarrow> (s', evs, Continue)
                   | (s', evs, Raised m) \<Rightarrow>
                       (s', evs @ [Print (''An error occurred: '' @ m)], Continue)
                   | (s', evs, Interrupted) \<Rightarrow>
                       (s', evs @ [Print (CHR 0x0A # ''Exiting console.'')], Break)
                   | (s', evs, System_exit) \<Rightarrow> (s', evs, Exit))
              | None \<Rightarrow> (s, [Print (''Unknown command: '' @ cmd_name)], Continue))))"

section \<open>Observations on event traces and example inputs\<close>

definition coord_form :: "string \<Rightarrow> bool" where
  \<comment> \<open>A plain floating-point literal, \<open>~\<close>, or \<open>~\<close> followed by a floating-point literal
      (which may carry a sign).\<close>
  "coord_form c \<longleftrightarrow> py_float_ok c \<or> c = ''~'' \<or> (startswith c ''~'' \<and> py_float_ok (drop 1 c))"

definition is_token :: "string \<Rightarrow> bool" where
  \<comment> \<open>A non-empty string without whitespace: what \<open>split\<close> returns.\<close>
  "is_token t \<longleftrightarrow> t \<noteq> [] \<and> list_all (\<lambda>c. \<not> is_space c) t"

definition arg_or :: "string list \<Rightarrow> nat \<Rightarrow> string \<Rightarrow> string" where
  \<comment> \<open>The optional argument \<open>rest[i]\<close>, or its default.\<close>
  "arg_or rest i d = (if i < length rest then rest ! i else d)"

definition unique_in :: "(resource \<Rightarrow> bool) \<Rightarrow> resource list \<Rightarrow> resource \<Rightarrow> bool" where
  \<comment> \<open>Within the category \<open>cat\<close> no other spelling of the id of \<open>e\<close> occurs: the data
      model's invariant that an id is unique within its category, ids compared up to case.\<close>
  "unique_in cat df e \<longleftrightarrow>
     list_all (\<lambda>e'. cat e' \<and> lower (res_id e') = lower (res_id e) \<longrightarrow> res_id e' = res_id e) df"

fun transport_calls :: "event list \<Rightarrow> string list" where
  \<comment> \<open>The texts handed to \<open>send_command\<close>, in order.\<close>
  "transport_calls [] = []"
| "transport_calls (Transport_call c # es) = c # transport_calls es"
| "transport_calls (Print _ # es) = transport_calls es"
| "transport_calls (Tmux_send_keys _ _ # es) = transport_calls es"
| "transport_calls (Sql_exec _ _ # es) = transport_calls es"

definition startup_raises :: "startup_env \<Rightarrow> bool" where
  \<comment> \<open>An exception reaches the \<open>except Exception\<close> clause of \<open>startup\<close> before the platform check.\<close>
  "startup_raises env =
     (case db_load env of Db_other_error _ _ \<Rightarrow> True | _ \<Rightarrow> process_scan env = None)"

definition quiet_world :: world where
  \<comment> \<open>A world in which every external call succeeds.\<close>
  "quiet_world = \<lparr>relay = (\<lambda>i text. None), sql = (\<lambda>stmt params. None)\<rparr>"

definition flaky_world :: world where
  \<comment> \<open>A world in which the first transport call of a handler run fails.\<close>
  "flaky_world = \<lparr>relay = (\<lambda>i text. if i = 0 then Some ''tmux failed'' else None),
                   sql = (\<lambda>stmt params. None)\<rparr>"

definition no_session_env :: startup_env where
  \<comment> \<open>The database loads, no server process is found, the tmux session does not exist.\<close>
  "no_session_env = \<lparr>db_load = Db_loaded [] [] [], process_scan = Some None, tmux_has_session = False\<rparr>"

definition linux_server :: server where
  \<comment> \<open>A connected server on Linux with empty tables.\<close>
  "linux_server =
     \<lparr>connected = True, is_windows = False, tmux_session = ''minecraft'',
      default_tmux_session = ''minecraft'', resources_df = Some [], settings_df = Some [],
      named_pos_df = Attr (Some [])\<rparr>"

definition stone_row :: resource where
  "stone_row = \<lparr>res_id = ''Stone'', res_name = ''Stone'', resource_type = ''block'',
                 enchantment_max_level = Level_nan, enchantment_applies_to = None\<rparr>"

definition sharpness_row :: resource where
  "sharpness_row = \<lparr>res_id = ''sharpness'', res_name = ''Sharpness'',
                     resource_type = ''enchantment'', enchantment_max_level = Level_float 5,
                     enchantment_applies_to = Some ''sword,axe''\<rparr>"

definition unbreaking_row :: resource where
  "unbreaking_row = \<lparr>res_id = ''unbreaking'', res_name = ''Unbreaking'',
                      resource_type = ''enchantment'', enchantment_max_level = Level_float 3,
                      enchantment_applies_to = Some ''any''\<rparr>"

definition speed_row :: resource where
  "speed_row = \<lparr>res_id = ''speed'', res_name = ''Speed'', resource_type = ''effect'',
                 enchantment_max_level = Level_nan, enchantment_applies_to = None\<rparr>"

definition example_catalog :: "resource list" where
  \<comment> \<open>A table as \<open>pd.read_sql_query\<close> presents it: the block and the effect have no
      maximum level, so the column is \<open>float64\<close>.\<close>
  "example_catalog = [stone_row, sharpness_row, unbreaking_row, speed_row]"

definition mending_row :: resource where
  \<comment> \<open>An enchantment whose maximum level is NULL in the table.\<close>
  "mending_row = \<lparr>res_id = ''mending'', res_name = ''Mending'',
                   resource_type = ''enchantment'', enchantment_max_level = Level_nan,
                   enchantment_applies_to = Some ''any''\<rparr>"

definition multishot_row :: resource where
  \<comment> \<open>An enchantment for crossbows only.\<close>
  "multishot_row = \<lparr>res_id = ''multishot'', res_name = ''Multishot'',
                     resource_type = ''enchantment'', enchantment_max_level = Level_float 1,
                     enchantment_applies_to = Some ''crossbow''\<rparr>"

definition block_row :: "string \<Rightarrow> resource" where
  "block_row i = \<lparr>res_id = i, res_name = i, resource_type = ''block'',
                   enchantment_max_level = Level_nan, enchantment_applies_to = None\<rparr>"

definition stone_catalog :: "resource list" where
  \<comment> \<open>Eight blocks, seven of them with \<open>sto\<close> in the id.\<close>
  "stone_catalog =
     map block_row [''Sandstone'', ''cobblestone'', ''dirt'', ''stone_bricks'', ''Redstone'',
                    ''glowstone'', ''endstone'', ''blackstone'']"

definition players_server :: server where
  \<comment> \<open>The connected Linux server with two saved players, stored out of order.\<close>
  "players_server = linux_server\<lparr>settings_df := Some [(''players'', ''carl,al'')]\<rparr>"

definition mending_server :: server where
  \<comment> \<open>The connected Linux server with the example catalog and the enchantment without a
      maximum level.\<close>
  "mending_server = linux_server\<lparr>resources_df := Some (example_catalog @ [mending_row])\<rparr>"

definition catalog_server :: server where
  \<comment> \<open>The connected Linux server with the example catalog loaded.\<close>
  "catalog_server = linux_server\<lparr>resources_df := Some example_catalog\<rparr>"

lemmas string_eval =
  split_def is_space_def lower_def lower_char_def upper_char_def capitalize_def
  replace_comma_def quoted_def is_digit_def digit_val_def digit_char_def digitpart_def
  strip_sign_def py_int_def str_nat.simps str_int_def exponent_opt_def floatnumber_def py_float_ok_def

lemmas catalog_eval =
  stone_row_def sharpness_row_def unbreaking_row_def speed_row_def mending_row_def
  multishot_row_def
  example_catalog_def catalog_server_def mending_server_def linux_server_def quiet_world_def
  is_block_or_item_def is_type_ci_def id_matches_def id_contains_def or_one_def
  unique_in_def arg_or_def

section \<open>Basic facts about traces\<close>

lemma transport_calls_append [simp]:
  "transport_calls (xs @ ys) = transport_calls xs @ transport_calls ys"
  by (induction xs rule: transport_calls.induct) simp_all

lemma transport_calls_send_command [simp]:
  "transport_calls (fst (send_command srv out c)) = [c]"
  by (simp add: send_command_def split: option.splits)

lemma transport_calls_send_and_print [simp]:
  "transport_calls (send_and_print srv out err c) = [c]"
  by (simp add: send_and_print_def send_command_def split: option.splits)

lemma transport_calls_map_Print [simp]:
  "transport_calls (map (\<lambda>x. Print (f x)) xs) = []"
  by (induction xs) simp_all

section \<open>The handlers after a successful lookup\<close>

lemma arg_or_0: "arg_or rest 0 d = (case rest of [] \<Rightarrow> d | q # _ \<Rightarrow> q)"
  by (cases rest) (simp_all add: arg_or_def)

lemma first_match:
  assumes "e \<in> set df" "cat e" "lower tok = lower (res_id e)" "unique_in cat df e"
  shows "filter (\<lambda>r. cat r \<and> id_matches tok r) df \<noteq> []"
    and "res_id (hd (filter (\<lambda>r. cat r \<and> id_matches tok r) df)) = res_id e"
proof -
  let ?m = "filter (\<lambda>r. cat r \<and> id_matches tok r) df"
  from assms(1-3) show ne: "?m \<noteq> []"
    by (auto simp: filter_empty_conv id_matches_def)
  then have "hd ?m \<in> set ?m"
    by (rule hd_in_set)
  moreover have "\<forall>r \<in> set ?m. r \<in> set df \<and> cat r \<and> lower (res_id r) = lower (res_id e)"
    using assms(3) by (simp add: id_matches_def)
  ultimately have "hd ?m \<in> set df \<and> cat (hd ?m) \<and> lower (res_id (hd ?m)) = lower (res_id e)"
    by blast
  with assms(4) show "res_id (hd ?m) = res_id e"
    unfolding unique_in_def list_all_iff by blast
qed

lemma give_resolved:
  assumes "resources_df srv = Some df" "split cmd_line = c # player # tok # rest"
    and "filter (\<lambda>r. is_block_or_item r \<and> id_matches tok r) df \<noteq> []"
  shows "give_command w srv cmd_line =
           send_and_print srv
             (relay w 0 (''give '' @ player @ '' ''
                @ res_id (hd (filter (\<lambda>r. is_block_or_item r \<and> id_matches tok r) df))
                @ '' '' @ arg_or rest 0 ''1''))
             ''[red]Error giving items: ''
             (''give '' @ player @ '' ''
                @ res_id (hd (filter (\<lambda>r. is_block_or_item r \<and> id_matches tok r) df))
                @ '' '' @ arg_or rest 0 ''1'')"
  using assms by (simp add: give_command_def Let_def arg_or_0)

lemma enchant_resolved:
  assumes "resources_df srv = Some df" "split cmd_line = c # player # tok # rest"
    and "filter (\<lambda>r. is_type_ci ''enchantment'' r \<and> id_matches tok r) df = hit # more_hits"
  shows "enchant_command w srv cmd_line =
           fst (validate_level (or_one (enchantment_max_level hit)) (arg_or rest 0 ''1''))
           @ send_and_print srv
               (relay w 0 (''enchant '' @ player @ '' '' @ res_id hit @ '' ''
                  @ snd (validate_level (or_one (enchantment_max_level hit)) (arg_or rest 0 ''1''))))
               ''[red]Error applying enchantment: ''
               (''enchant '' @ player @ '' '' @ res_id hit @ '' ''
                  @ snd (validate_level (or_one (enchantment_max_level hit)) (arg_or rest 0 ''1'')))"
  using assms by (simp add: enchant_command_def Let_def arg_or_0 split: prod.splits)

lemma effect_resolved:
  assumes "resources_df srv = Some df" "split cmd_line = c # player # tok # rest"
    and "filter (\<lambda>r. is_type_ci ''effect'' r \<and> id_matches tok r) df = hit # more_hits"
  shows "effect_command w srv cmd_line =
           fst (validate_seconds (arg_or rest 0 ''30''))
           @ fst (validate_amplifier (arg_or rest 1 ''0''))
           @ send_and_print srv
               (relay w 0 (''effect '' @ player @ '' '' @ res_id hit @ '' ''
                  @ snd (validate_seconds (arg_or rest 0 ''30'')) @ '' ''
                  @ snd (validate_amplifier (arg_or rest 1 ''0'')) @ '' ''
                  @ arg_or rest 2 ''true''))
               ''[red]Error applying effect: ''
               (''effect '' @ player @ '' '' @ res_id hit @ '' ''
                  @ snd (validate_seconds (arg_or rest 0 ''30'')) @ '' ''
                  @ snd (validate_amplifier (arg_or rest 1 ''0'')) @ '' ''
                  @ arg_or rest 2 ''true'')"
  using assms by (simp add: effect_command_def Let_def arg_or_def split: prod.splits)

lemma validate_level_fst_transport [simp]: "transport_calls (fst (validate_level m l)) = []"
  by (simp add: validate_level_def split: option.splits)
lemma validate_seconds_fst_transport [simp]: "transport_calls (fst (validate_seconds l)) = []"
  by (simp add: validate_seconds_def split: option.splits)
lemma validate_amplifier_fst_transport [simp]: "transport_calls (fst (validate_amplifier l)) = []"
  by (simp add: validate_amplifier_def split: option.splits)

lemma after_sql_shape:
  "\<exists>evs. after_sql w stmt params err = Sql_exec stmt params # evs
         \<and> transport_calls (Sql_exec stmt params # evs) = []"
  by (simp add: after_sql_def split: option.splits)


section \<open>The dispatcher\<close>

lemma console_step_dispatch:
  assumes "split command = cmd_name # rest"
  shows "console_step commands command s =
           (case commands cmd_name of
              None \<Rightarrow> (s, [Print (''Unknown command: '' @ cmd_name)], Continue)
            | Some func \<Rightarrow>
                (case func command s of
                   (s', evs, Returned) \<Rightarrow> (s', evs, Continue)
                 | (s', evs, Raised m) \<Rightarrow>
                     (s', evs @ [Print (''An error occurred: '' @ m)], Continue)
                 | (s', evs, Interrupted) \<Rightarrow>
                     (s', evs @ [Print (CHR 0x0A # ''Exiting console.'')], Break)
                 | (s', evs, System_exit) \<Rightarrow> (s', evs, Exit)))"
proof -
  from assms have "command \<noteq> []"
    by (auto simp: split_def)
  with assms show ?thesis
    by (simp add: console_step_def)
qed

text \<open>
  Claim C2.  A line that splits into no tokens should be a no-op.  The loop only skips the
  empty line: on a line of whitespace \<open>command.split()[0]\<close> raises \<open>IndexError\<close>, which
  the loop's catch-all reports on the console.
\<close>

theorem console_step_blank_line:
  "console_step commands '' '' s =
     (s, [Print ''An error occurred: list index out of range''], Continue)"
  by (simp add: console_step_def split_def is_space_def)

section \<open>Session transport: the connection flag\<close>

text \<open>
  Claim C3, as amended.  \<open>startup\<close> sets the connection flag exactly when it reaches the
  platform check without an exception and either runs on Windows or finds the tmux
  session; it is not set unconditionally.  Once the flag is set, a send never fails the
  not-connected check; while it is not set, every send fails it before any external call.
  On the Windows branch a connected send makes no external call and returns the fixed
  acknowledgement \<open>Command logged (Windows development mode)\<close>.
\<close>

theorem startup_connection_flag:
  "(connected (fst (startup env (init_server win session)))
      \<longleftrightarrow> \<not> startup_raises env \<and> (win \<or> tmux_has_session env))
   \<and> (connected srv \<longrightarrow> snd (send_command srv out text) \<noteq> Inl ConnectionError)
   \<and> (\<not> connected srv \<longrightarrow>
        send_command srv out text = ([Transport_call text], Inl ConnectionError))
   \<and> (connected srv \<and> is_windows srv \<longrightarrow>
        snd (send_command srv out text) = Inr ''Command logged (Windows development mode)''
        \<and> filter is_tmux (fst (send_command srv out text)) = [])"
proof -
  have flag: "connected (fst (startup env (init_server win session)))
      \<longleftrightarrow> \<not> startup_raises env \<and> (win \<or> tmux_has_session env)"
    by (cases "db_load env"; cases "process_scan env")
       (simp_all add: startup_def load_database_def init_server_def startup_raises_def Let_def)
  have send: "connected srv \<longrightarrow> snd (send_command srv out text) \<noteq> Inl ConnectionError"
    by (simp add: send_command_def split: option.splits)
  have nosend: "\<not> connected srv \<longrightarrow>
        send_command srv out text = ([Transport_call text], Inl ConnectionError)"
    by (simp add: send_command_def)
  have win: "connected srv \<and> is_windows srv \<longrightarrow>
        snd (send_command srv out text) = Inr ''Command logged (Windows development mode)''
        \<and> filter is_tmux (fst (send_command srv out text)) = []"
    by (simp add: send_command_def is_tmux_def)
  from flag send nosend win show ?thesis by blast
qed

text \<open>
  The theorem at concrete inputs: a Linux start-up that finds the session ends connected;
  a connected Linux server passes the check; a connected Windows server acknowledges.
\<close>

theorem startup_connection_flag_witness:
  "connected (fst (startup (no_session_env\<lparr>tmux_has_session := True\<rparr>)
                     (init_server False ''minecraft'')))
   \<and> snd (send_command linux_server None ''list'') \<noteq> Inl ConnectionError
   \<and> snd (send_command (linux_server\<lparr>is_windows := True\<rparr>) None ''list'')
       = Inr ''Command logged (Windows development mode)''"
  using startup_connection_flag [of "no_session_env\<lparr>tmux_has_session := True\<rparr>" False
          "''minecraft''" linux_server None "''list''"]
    startup_connection_flag [of no_session_env False "''minecraft''"
          "linux_server\<lparr>is_windows := True\<rparr>" None "''list''"]
  by (simp add: no_session_env_def linux_server_def startup_raises_def)

text \<open>
  The claim as stated fails: on Linux, when the tmux session is not found, \<open>startup\<close>
  leaves the flag unset and the first send raises the not-connected error.
\<close>

theorem startup_not_connected_counterexample:
  "\<not> connected (fst (startup no_session_env (init_server False ''minecraft'')))
   \<and> snd (send_command (fst (startup no_session_env (init_server False ''minecraft'')))
            None ''list'')
       = Inl ConnectionError"
  by (simp add: startup_def load_database_def init_server_def no_session_env_def
        send_command_def)

section \<open>Resolution to the canonical id\<close>

text \<open>
  Claim C4.  Let \<open>e\<close> be a catalog entry of the target category (block or item for
  \<open>give\<close>, enchantment for \<open>enchant\<close>, effect for \<open>effect\<close>) whose id is unique within
  that category up to case, and let the typed token equal the id of \<open>e\<close> up to case.
  Then the lookup succeeds and the one command handed to the transport carries the id in
  the catalog's casing, whatever casing was typed.
\<close>

theorem canonical_id_is_sent:
  assumes "resources_df srv = Some df" and "split cmd_line = c # player # tok # rest"
    and "e \<in> set df" and "lower tok = lower (res_id e)"
  shows "(is_block_or_item e \<and> unique_in is_block_or_item df e \<longrightarrow>
            transport_calls (give_command w srv cmd_line)
              = [''give '' @ player @ '' '' @ res_id e @ '' '' @ arg_or rest 0 ''1''])
       \<and> (is_type_ci ''enchantment'' e \<and> unique_in (is_type_ci ''enchantment'') df e \<longrightarrow>
            (\<exists>level. transport_calls (enchant_command w srv cmd_line)
              = [''enchant '' @ player @ '' '' @ res_id e @ '' '' @ level]))
       \<and> (is_type_ci ''effect'' e \<and> unique_in (is_type_ci ''effect'') df e \<longrightarrow>
            (\<exists>seconds amplifier. transport_calls (effect_command w srv cmd_line)
              = [''effect '' @ player @ '' '' @ res_id e @ '' '' @ seconds @ '' '' @ amplifier
                 @ '' '' @ arg_or rest 2 ''true'']))"
proof (intro conjI impI)
  assume "is_block_or_item e \<and> unique_in is_block_or_item df e"
  then have "filter (\<lambda>r. is_block_or_item r \<and> id_matches tok r) df \<noteq> []"
    and "res_id (hd (filter (\<lambda>r. is_block_or_item r \<and> id_matches tok r) df)) = res_id e"
    using first_match [of e df is_block_or_item tok] assms(3,4) by simp_all
  then show "transport_calls (give_command w srv cmd_line)
      = [''give '' @ player @ '' '' @ res_id e @ '' '' @ arg_or rest 0 ''1'']"
    using give_resolved [OF assms(1,2)] by simp
next
  assume a: "is_type_ci ''enchantment'' e \<and> unique_in (is_type_ci ''enchantment'') df e"
  let ?m = "filter (\<lambda>r. is_type_ci ''enchantment'' r \<and> id_matches tok r) df"
  from a have ne: "?m \<noteq> []" and hd: "res_id (hd ?m) = res_id e"
    using first_match [of e df "is_type_ci ''enchantment''" tok] assms(3,4) by simp_all
  from ne obtain hit more_hits where m: "?m = hit # more_hits"
    by (cases ?m) auto
  with hd have "res_id hit = res_id e" by simp
  then show "\<exists>level. transport_calls (enchant_command w srv cmd_line)
      = [''enchant '' @ player @ '' '' @ res_id e @ '' '' @ level]"
    using enchant_resolved [OF assms(1,2) m] by simp
next
  assume a: "is_type_ci ''effect'' e \<and> unique_in (is_type_ci ''effect'') df e"
  let ?m = "filter (\<lambda>r. is_type_ci ''effect'' r \<and> id_matches tok r) df"
  from a have ne: "?m \<noteq> []" and hd: "res_id (hd ?m) = res_id e"
    using first_match [of e df "is_type_ci ''effect''" tok] assms(3,4) by simp_all
  from ne obtain hit more_hits where m: "?m = hit # more_hits"
    by (cases ?m) auto
  with hd have "res_id hit = res_id e" by simp
  then have "transport_calls (effect_command w srv cmd_line)
      = [''effect '' @ player @ '' '' @ res_id e @ '' ''
         @ snd (validate_seconds (arg_or rest 0 ''30'')) @ '' ''
         @ snd (validate_amplifier (arg_or rest 1 ''0''))
         @ '' '' @ arg_or rest 2 ''true'']"
    using effect_resolved [OF assms(1,2) m] by simp
  then show "\<exists>seconds amplifier. transport_calls (effect_command w srv cmd_line)
      = [''effect '' @ player @ '' '' @ res_id e @ '' '' @ seconds @ '' '' @ amplifier
         @ '' '' @ arg_or rest 2 ''true'']"
    by blast
qed

text \<open>The theorem on the example catalog, with the token typed in another casing.\<close>

theorem canonical_id_is_sent_witness:
  "transport_calls (give_command quiet_world catalog_server ''give steve STONE 3'')
     = [''give steve Stone 3'']
   \<and> (\<exists>level. transport_calls (enchant_command quiet_world catalog_server ''enchant steve SharpNess 2'')
        = [''enchant steve sharpness '' @ level])
   \<and> (\<exists>seconds amplifier.
        transport_calls (effect_command quiet_world catalog_server ''effect steve SPEED'')
        = [''effect steve speed '' @ seconds @ '' '' @ amplifier @ '' true''])"
proof -
  have df: "resources_df catalog_server = Some example_catalog"
    by (simp add: catalog_server_def linux_server_def)
  have s1: "split ''give steve STONE 3'' = [''give'', ''steve'', ''STONE'', ''3'']"
    and s2: "split ''enchant steve SharpNess 2'' = [''enchant'', ''steve'', ''SharpNess'', ''2'']"
    and s3: "split ''effect steve SPEED'' = [''effect'', ''steve'', ''SPEED'']"
    by (simp_all add: split_def is_space_def)
  have m: "stone_row \<in> set example_catalog" "sharpness_row \<in> set example_catalog"
    "speed_row \<in> set example_catalog"
    by (simp_all add: example_catalog_def)
  have l1: "lower ''STONE'' = lower (res_id stone_row)"
    and l2: "lower ''SharpNess'' = lower (res_id sharpness_row)"
    and l3: "lower ''SPEED'' = lower (res_id speed_row)"
    by (simp_all add: lower_def lower_char_def stone_row_def sharpness_row_def speed_row_def)
  have c1: "is_block_or_item stone_row \<and> unique_in is_block_or_item example_catalog stone_row"
    by (simp add: catalog_eval lower_def lower_char_def)
  have c2: "is_type_ci ''enchantment'' sharpness_row
            \<and> unique_in (is_type_ci ''enchantment'') example_catalog sharpness_row"
    by (simp add: catalog_eval lower_def lower_char_def)
  have c3: "is_type_ci ''effect'' speed_row
            \<and> unique_in (is_type_ci ''effect'') example_catalog speed_row"
    by (simp add: catalog_eval lower_def lower_char_def)
  have "transport_calls (give_command quiet_world catalog_server ''give steve STONE 3'')
     = [''give '' @ ''steve'' @ '' '' @ res_id stone_row @ '' '' @ arg_or [''3''] 0 ''1'']"
    using canonical_id_is_sent [OF df s1 m(1) l1, of quiet_world] c1 by blast
  then have g: "transport_calls (give_command quiet_world catalog_server ''give steve STONE 3'')
     = [''give steve Stone 3'']"
    by (simp add: stone_row_def arg_or_def)
  have "\<exists>level. transport_calls (enchant_command quiet_world catalog_server ''enchant steve SharpNess 2'')
        = [''enchant '' @ ''steve'' @ '' '' @ res_id sharpness_row @ '' '' @ level]"
    using canonical_id_is_sent [OF df s2 m(2) l2, of quiet_world] c2 by blast
  then have e: "\<exists>level. transport_calls (enchant_command quiet_world catalog_server ''enchant steve SharpNess 2'')
        = [''enchant steve sharpness '' @ level]"
    by (simp add: sharpness_row_def)
  have "\<exists>seconds amplifier.
        transport_calls (effect_command quiet_world catalog_server ''effect steve SPEED'')
        = [''effect '' @ ''steve'' @ '' '' @ res_id speed_row @ '' '' @ seconds @ '' '' @ amplifier
           @ '' '' @ arg_or [] 2 ''true'']"
    using canonical_id_is_sent [OF df s3 m(3) l3, of quiet_world] c3 by blast
  then have f: "\<exists>seconds amplifier.
        transport_calls (effect_command quiet_world catalog_server ''effect steve SPEED'')
        = [''effect steve speed '' @ seconds @ '' '' @ amplifier @ '' true'']"
    by (simp add: speed_row_def arg_or_def)
  from g e f show ?thesis by blast
qed

section \<open>Suggestions after a failed lookup\<close>

lemma suggest_loop_take:
  "length acc < 5 \<Longrightarrow>
   suggest_loop mk tok rows acc = take 5 (acc @ map mk (filter (id_contains tok) rows))"
proof (induction rows arbitrary: acc)
  case Nil
  then show ?case by simp
next
  case (Cons row rows)
  show ?case
  proof (cases "id_contains tok row")
    case False
    with Cons show ?thesis by simp
  next
    case True
    show ?thesis
    proof (cases "length acc < 4")
      case True
      with Cons(1) [of "acc @ [mk row]"] \<open>id_contains tok row\<close> show ?thesis
        by (simp add: Let_def)
    next
      case False
      with Cons.prems have "length acc = 4" by simp
      with \<open>id_contains tok row\<close> show ?thesis
        by (simp add: Let_def)
    qed
  qed
qed

lemma suggest_loop_filter:
  "suggest_loop mk tok (filter cat df) [] =
     map mk (take 5 (filter (\<lambda>r. cat r \<and> id_contains tok r) df))"
proof -
  have "filter (id_contains tok) (filter cat df) = filter (\<lambda>r. cat r \<and> id_contains tok r) df"
    by (simp add: conj_commute)
  then show ?thesis
    by (simp add: suggest_loop_take take_map)
qed

lemma take5_empty: "take 5 xs = [] \<longleftrightarrow> xs = []"
  by (cases xs) simp_all

lemma did_you_mean_transport [simp]: "transport_calls (did_you_mean line xs) = []"
  by (simp add: did_you_mean_def)

text \<open>
  Claim C5.  When the typed token matches no id of the target category exactly (up to
  case), the handler prints the rejection followed by the suggestions.  These are the
  entries of that category whose id contains the token, both compared in lower case, taken
  in catalog order and cut after the fifth: at most five, in catalog order, and none
  exactly when no id of the category contains the token.
\<close>

theorem suggestions_capped_in_order:
  assumes "resources_df srv = Some df" and "split cmd_line = c # player # tok # rest"
  shows
  "(\<not> (\<exists>r \<in> set df. is_block_or_item r \<and> id_matches tok r) \<longrightarrow>
      give_command w srv cmd_line =
        Print (''[red]Invalid item: '' @ tok) # did_you_mean give_line (give_suggestions tok df))
   \<and> (\<not> (\<exists>r \<in> set df. is_type_ci ''enchantment'' r \<and> id_matches tok r) \<longrightarrow>
      enchant_command w srv cmd_line =
        Print (''[red]Invalid enchantment: '' @ tok)
        # did_you_mean enchant_line (enchant_suggestions tok df))
   \<and> (\<not> (\<exists>r \<in> set df. is_type_ci ''effect'' r \<and> id_matches tok r) \<longrightarrow>
      effect_command w srv cmd_line =
        Print (''[red]Invalid effect: '' @ tok) # did_you_mean effect_line (effect_suggestions tok df))
   \<and> give_suggestions tok df =
     map (\<lambda>row. (res_id row, res_name row, capitalize (resource_type row)))
       (take 5 (filter (\<lambda>r. is_block_or_item r \<and> id_contains tok r) df))
   \<and> enchant_suggestions tok df =
     map (\<lambda>row. (res_id row, res_name row, or_one (enchantment_max_level row)))
       (take 5 (filter (\<lambda>r. is_type_ci ''enchantment'' r \<and> id_contains tok r) df))
   \<and> effect_suggestions tok df =
     map (\<lambda>row. (res_id row, res_name row))
       (take 5 (filter (\<lambda>r. is_type_ci ''effect'' r \<and> id_contains tok r) df))
   \<and> length (give_suggestions tok df) \<le> 5
   \<and> length (enchant_suggestions tok df) \<le> 5
   \<and> length (effect_suggestions tok df) \<le> 5
   \<and> (give_suggestions tok df = [] \<longleftrightarrow>
        \<not> (\<exists>r \<in> set df. is_block_or_item r \<and> id_contains tok r))
   \<and> (enchant_suggestions tok df = [] \<longleftrightarrow>
        \<not> (\<exists>r \<in> set df. is_type_ci ''enchantment'' r \<and> id_contains tok r))
   \<and> (effect_suggestions tok df = [] \<longleftrightarrow>
        \<not> (\<exists>r \<in> set df. is_type_ci ''effect'' r \<and> id_contains tok r))"
proof -
  have g: "\<not> (\<exists>r \<in> set df. is_block_or_item r \<and> id_matches tok r) \<longrightarrow>
      give_command w srv cmd_line =
        Print (''[red]Invalid item: '' @ tok) # did_you_mean give_line (give_suggestions tok df)"
    using assms by (simp add: give_command_def Let_def filter_empty_conv)
  have e: "\<not> (\<exists>r \<in> set df. is_type_ci ''enchantment'' r \<and> id_matches tok r) \<longrightarrow>
      enchant_command w srv cmd_line =
        Print (''[red]Invalid enchantment: '' @ tok)
        # did_you_mean enchant_line (enchant_suggestions tok df)"
    using assms by (simp add: enchant_command_def Let_def filter_empty_conv)
  have f: "\<not> (\<exists>r \<in> set df. is_type_ci ''effect'' r \<and> id_matches tok r) \<longrightarrow>
      effect_command w srv cmd_line =
        Print (''[red]Invalid effect: '' @ tok) # did_you_mean effect_line (effect_suggestions tok df)"
    using assms by (simp add: effect_command_def Let_def filter_empty_conv)
  have rest: "give_suggestions tok df =
     map (\<lambda>row. (res_id row, res_name row, capitalize (resource_type row)))
       (take 5 (filter (\<lambda>r. is_block_or_item r \<and> id_contains tok r) df))
   \<and> enchant_suggestions tok df =
     map (\<lambda>row. (res_id row, res_name row, or_one (enchantment_max_level row)))
       (take 5 (filter (\<lambda>r. is_type_ci ''enchantment'' r \<and> id_contains tok r) df))
   \<and> effect_suggestions tok df =
     map (\<lambda>row. (res_id row, res_name row))
       (take 5 (filter (\<lambda>r. is_type_ci ''effect'' r \<and> id_contains tok r) df))
   \<and> length (give_suggestions tok df) \<le> 5
   \<and> length (enchant_suggestions tok df) \<le> 5
   \<and> length (effect_suggestions tok df) \<le> 5
   \<and> (give_suggestions tok df = [] \<longleftrightarrow>
        \<not> (\<exists>r \<in> set df. is_block_or_item r \<and> id_contains tok r))
   \<and> (enchant_suggestions tok df = [] \<longleftrightarrow>
        \<not> (\<exists>r \<in> set df. is_type_ci ''enchantment'' r \<and> id_contains tok r))
   \<and> (effect_suggestions tok df = [] \<longleftrightarrow>
        \<not> (\<exists>r \<in> set df. is_type_ci ''effect'' r \<and> id_contains tok r))"
    by (simp add: give_suggestions_def enchant_suggestions_def effect_suggestions_def
          suggest_loop_filter take5_empty filter_empty_conv)
  from g e f rest show ?thesis by blast
qed

text \<open>The theorem on a catalog with seven candidates: the first five are suggested.\<close>

theorem suggestions_capped_in_order_witness:
  "give_command quiet_world (linux_server\<lparr>resources_df := Some stone_catalog\<rparr>) ''give steve STO''
     = Print ''[red]Invalid item: STO''
       # did_you_mean give_line (give_suggestions ''STO'' stone_catalog)
   \<and> map fst (give_suggestions ''STO'' stone_catalog)
       = [''Sandstone'', ''cobblestone'', ''stone_bricks'', ''Redstone'', ''glowstone'']"
proof -
  have df: "resources_df (linux_server\<lparr>resources_df := Some stone_catalog\<rparr>) = Some stone_catalog"
    by simp
  have sp: "split ''give steve STO'' = [''give'', ''steve'', ''STO'']"
    by (simp add: split_def is_space_def)
  have lw: "lower ''STO'' = ''sto''"
    by (simp add: lower_def lower_char_def)
  have ids: "map (\<lambda>r. lower (res_id r)) stone_catalog =
               [''sandstone'', ''cobblestone'', ''dirt'', ''stone_bricks'', ''redstone'',
                ''glowstone'', ''endstone'', ''blackstone'']"
    by (simp add: stone_catalog_def block_row_def lower_def lower_char_def)
  have nomatch: "\<not> (\<exists>r \<in> set stone_catalog. is_block_or_item r \<and> id_matches ''STO'' r)"
  proof -
    have "''sto'' \<notin> set (map (\<lambda>r. lower (res_id r)) stone_catalog)"
      unfolding ids by simp
    then show ?thesis
      unfolding id_matches_def lw by (metis (no_types, lifting) image_eqI list.set_map)
  qed
  note t = suggestions_capped_in_order [OF df sp, of quiet_world]
  from t nomatch have g: "give_command quiet_world (linux_server\<lparr>resources_df := Some stone_catalog\<rparr>)
       ''give steve STO''
     = Print (''[red]Invalid item: '' @ ''STO'')
       # did_you_mean give_line (give_suggestions ''STO'' stone_catalog)"
    by blast
  from t have "give_suggestions ''STO'' stone_catalog =
     map (\<lambda>row. (res_id row, res_name row, capitalize (resource_type row)))
       (take 5 (filter (\<lambda>r. is_block_or_item r \<and> id_contains ''STO'' r) stone_catalog))"
    by blast
  then have s: "map fst (give_suggestions ''STO'' stone_catalog)
       = [''Sandstone'', ''cobblestone'', ''stone_bricks'', ''Redstone'', ''glowstone'']"
    by (simp add: stone_catalog_def block_row_def is_block_or_item_def id_contains_def
          lower_def lower_char_def)
  from g s show ?thesis by simp
qed

section \<open>Numeric arguments of \<open>enchant\<close> and \<open>effect\<close>\<close>

lemma py_int_literals:
  "py_int ''1'' = Some 1" "py_int ''30'' = Some 30" "py_int ''0'' = Some 0"
  "py_int ''255'' = Some 255"
  by (simp_all add: py_int_def strip_sign_def digitpart_def is_digit_def digit_val_def
        max_str_digits_def)

lemma str_int_literals: "str_int 0 = ''0''" "str_int 1 = ''1''" "str_int 255 = ''255''"
  by (simp_all add: str_int_def str_nat.simps digit_char_def)

lemma validate_seconds_value:
  "py_int (snd (validate_seconds s)) = Some (case py_int s of None \<Rightarrow> 30 | Some n \<Rightarrow> max 1 n)"
  by (auto simp: validate_seconds_def py_int_literals split: option.splits)

lemma validate_amplifier_value:
  "py_int (snd (validate_amplifier a)) =
     Some (case py_int a of None \<Rightarrow> 0 | Some n \<Rightarrow> min (max 0 n) 255)"
proof (cases "py_int a")
  case None
  then show ?thesis
    by (simp add: validate_amplifier_def py_int_literals)
next
  case (Some n)
  consider "n < 0" | "255 < n" | "0 \<le> n \<and> n \<le> 255"
    by linarith
  then show ?thesis
  proof cases
    case 1
    then have "min (max 0 n) 255 = 0" by simp
    with 1 Some show ?thesis
      by (simp add: validate_amplifier_def str_int_literals py_int_literals)
  next
    case 2
    then have "min (max 0 n) 255 = 255" by simp
    with 2 Some show ?thesis
      by (simp add: validate_amplifier_def str_int_literals py_int_literals)
  next
    case 3
    with Some show ?thesis
      by (simp add: validate_amplifier_def)
  qed
qed

lemma validate_seconds_warns:
  "fst (validate_seconds s) \<noteq> [] \<longleftrightarrow> (case py_int s of None \<Rightarrow> True | Some n \<Rightarrow> n < 1)"
  by (simp add: validate_seconds_def split: option.splits)

lemma validate_amplifier_warns:
  "fst (validate_amplifier a) \<noteq> [] \<longleftrightarrow>
     (case py_int a of None \<Rightarrow> True | Some n \<Rightarrow> n < 0 \<or> 255 < n)"
  by (simp add: validate_amplifier_def split: option.splits)

text \<open>
  With an integer maximum of at least 1 the level is clamped as intended: the level sent is
  1 for a non-integer argument, the clamped number for an integer out of range, and the
  argument itself otherwise.
\<close>

lemma validate_level_integer_maximum:
  assumes "1 \<le> m"
  shows "snd (validate_level (Py_int m) level) =
           (case py_int level of
              None \<Rightarrow> ''1''
            | Some n \<Rightarrow> if n < 1 \<or> m < n then str_int (min (max 1 n) m) else level)"
    and "fst (validate_level (Py_int m) level) \<noteq> [] \<longleftrightarrow>
           (case py_int level of None \<Rightarrow> True | Some n \<Rightarrow> n < 1 \<or> m < n)"
    and "1 \<le> min (max 1 n) m \<and> min (max 1 n) m \<le> m"
proof -
  have "py_min a (Py_int m) = Py_int (min a m)" for a
    unfolding py_min_def num_less_int_def min_def by auto
  then have "str_num (py_min (max 1 n) (Py_int m)) = str_int (min (max 1 n) m)" for n
    by (simp add: str_num_def)
  then show "snd (validate_level (Py_int m) level) =
           (case py_int level of
              None \<Rightarrow> ''1''
            | Some n \<Rightarrow> if n < 1 \<or> m < n then str_int (min (max 1 n) m) else level)"
    by (simp add: validate_level_def num_less_int_def split: option.splits)
  show "fst (validate_level (Py_int m) level) \<noteq> [] \<longleftrightarrow>
           (case py_int level of None \<Rightarrow> True | Some n \<Rightarrow> n < 1 \<or> m < n)"
    by (simp add: validate_level_def num_less_int_def split: option.splits)
  from assms show "1 \<le> min (max 1 n) m \<and> min (max 1 n) m \<le> m"
    by simp
qed

text \<open>
  The maximum is used as the frame holds it.  A float maximum is sent with its \<open>.0\<close> when
  the level is cut down to it, and a NaN maximum never cuts a level down.
\<close>

lemma validate_level_float_maximum:
  assumes "1 \<le> m" and "py_int level = Some n"
  shows "snd (validate_level (Py_float m) level) =
           (if n < 1 then ''1'' else if m < n then str_int m @ ''.0'' else level)"
  using assms
  by (simp add: validate_level_def num_less_int_def py_min_def str_num_def str_int_literals)

lemma validate_level_nan_maximum:
  assumes "py_int level = Some n"
  shows "validate_level Py_nan level =
           (if n < 1 then ([Print ''[yellow]Warning: Level should be between 1 and nan''], ''1'')
            else ([], level))"
  using assms
  by (simp add: validate_level_def num_less_int_def py_min_def str_num_def str_int_literals)

text \<open>
  Claim C6.  After a successful lookup an integer level is to be clamped into
  \<open>[1, max_level]\<close> with a warning, where a missing maximum counts as 1 (the handler reads
  \<open>... or 1\<close>), and the command is sent with the clamped level.  On a table whose level
  column has NULLs the handler does not do so: for the enchantment without a maximum the
  level 7 is sent as typed and without a warning, and for the enchantment with maximum 5
  the level 10 is sent as \<open>5.0\<close>.
\<close>

theorem enchant_level_escapes_clamp:
  "enchant_command quiet_world mending_server ''enchant steve mending 7''
     = [Transport_call ''enchant steve mending 7'',
        Tmux_send_keys ''minecraft'' (''enchant steve mending 7'' @ [CHR 0x0A]),
        Print ''[green]Command sent successfully'']
   \<and> enchant_command quiet_world catalog_server ''enchant steve sharpness 10''
     = [Print ''[yellow]Warning: Level should be between 1 and 5.0'',
        Transport_call ''enchant steve sharpness 5.0'',
        Tmux_send_keys ''minecraft'' (''enchant steve sharpness 5.0'' @ [CHR 0x0A]),
        Print ''[green]Command sent successfully'']"
proof -
  have s1: "split ''enchant steve mending 7'' = [''enchant'', ''steve'', ''mending'', ''7'']"
    and s2: "split ''enchant steve sharpness 10'' = [''enchant'', ''steve'', ''sharpness'', ''10'']"
    by (simp_all add: split_def is_space_def)
  have d1: "resources_df mending_server = Some (example_catalog @ [mending_row])"
    and d2: "resources_df catalog_server = Some example_catalog"
    by (simp_all add: mending_server_def catalog_server_def linux_server_def)
  have f1: "filter (\<lambda>r. is_type_ci ''enchantment'' r \<and> id_matches ''mending'' r)
              (example_catalog @ [mending_row]) = [mending_row]"
    and f2: "filter (\<lambda>r. is_type_ci ''enchantment'' r \<and> id_matches ''sharpness'' r)
              example_catalog = [sharpness_row]"
    by (simp_all add: catalog_eval lower_def lower_char_def)
  have i: "py_int ''7'' = Some 7" "py_int ''10'' = Some 10"
    by (simp_all add: py_int_def strip_sign_def digitpart_def is_digit_def digit_val_def
          max_str_digits_def)
  have n: "str_int 5 = ''5''"
    by (simp add: str_int_def str_nat.simps digit_char_def)
  have a: "enchant_command quiet_world mending_server ''enchant steve mending 7''
     = [Transport_call ''enchant steve mending 7'',
        Tmux_send_keys ''minecraft'' (''enchant steve mending 7'' @ [CHR 0x0A]),
        Print ''[green]Command sent successfully'']"
    unfolding enchant_resolved [OF d1 s1 f1]
    by (simp add: mending_row_def or_one_def arg_or_def validate_level_nan_maximum [OF i(1)]
          send_and_print_def send_command_def mending_server_def linux_server_def
          quiet_world_def)
  have b: "enchant_command quiet_world catalog_server ''enchant steve sharpness 10''
     = [Print ''[yellow]Warning: Level should be between 1 and 5.0'',
        Transport_call ''enchant steve sharpness 5.0'',
        Tmux_send_keys ''minecraft'' (''enchant steve sharpness 5.0'' @ [CHR 0x0A]),
        Print ''[green]Command sent successfully'']"
    unfolding enchant_resolved [OF d2 s2 f2]
    by (simp add: sharpness_row_def or_one_def arg_or_def validate_level_def i num_less_int_def
          py_min_def str_num_def n send_and_print_def send_command_def catalog_server_def
          linux_server_def quiet_world_def)
  from a b show ?thesis by simp
qed

section \<open>Splitting and joining\<close>

lemma split_acc_token:
  "list_all (\<lambda>c. \<not> is_space c) t \<Longrightarrow> split_acc cur (t @ s) = split_acc (cur @ t) s"
  by (induction t arbitrary: cur) simp_all

lemma split_acc_tokens:
  "list_all (\<lambda>c. \<not> is_space c) cur \<Longrightarrow> list_all is_token (split_acc cur s)"
  by (induction s arbitrary: cur) (simp_all add: is_token_def)

lemma split_tokens: "list_all is_token (split s)"
  by (simp add: split_def split_acc_tokens)

lemma split_acc_chars:
  "t \<in> set (split_acc cur s) \<Longrightarrow> set t \<subseteq> set cur \<union> set s"
proof (induction s arbitrary: cur)
  case Nil
  then show ?case by (simp split: if_splits)
next
  case (Cons c s)
  then show ?case
    by (fastforce split: if_splits)
qed

lemma split_chars: "t \<in> set (split s) \<Longrightarrow> set t \<subseteq> set s"
  using split_acc_chars [of t "[]" s] by (simp add: split_def)

lemma is_space_blank [simp]: "is_space (CHR '' '')"
  by (simp add: is_space_def)

lemma split_join:
  "list_all is_token ts \<Longrightarrow> split (join '' '' ts) = ts"
proof (induction ts rule: induct_list012)
  case 1
  then show ?case by (simp add: split_def)
next
  case (2 x)
  then have "split_acc [] (x @ []) = split_acc ([] @ x) []"
    by (intro split_acc_token) (simp add: is_token_def)
  with 2 show ?case
    by (simp add: split_def is_token_def)
next
  case (3 x y ys)
  then have x: "x \<noteq> []" "list_all (\<lambda>c. \<not> is_space c) x"
    and ih: "split (join '' '' (y # ys)) = y # ys"
    by (simp_all add: is_token_def)
  have "split_acc [] (x @ CHR '' '' # join '' '' (y # ys))
          = split_acc ([] @ x) (CHR '' '' # join '' '' (y # ys))"
    using x(2) by (rule split_acc_token)
  with x(1) ih show ?case
    by (simp add: split_def)
qed

lemma replace_comma_id: "CHR '','' \<notin> set s \<Longrightarrow> replace_comma s = s"
  by (induction s) (auto simp: replace_comma_def)

lemma replace_comma_free: "CHR '','' \<notin> set (replace_comma s)"
  by (induction s) (simp_all add: replace_comma_def)

lemma set_join_blank: "set (join '' '' ts) \<subseteq> insert (CHR '' '') (\<Union> (set ` set ts))"
  by (induction ts rule: induct_list012) auto

lemma coord_tokens_props:
  "list_all is_token (coord_tokens s) \<and> (\<forall>t \<in> set (coord_tokens s). CHR '','' \<notin> set t)"
proof -
  have "list_all is_token (coord_tokens s)"
    using split_tokens [of "replace_comma s"] by (simp add: coord_tokens_def list_all_iff)
  moreover have "CHR '','' \<notin> set t" if "t \<in> set (coord_tokens s)" for t
  proof -
    from that have "set t \<subseteq> set (replace_comma s)"
      by (simp add: coord_tokens_def split_chars)
    then show ?thesis
      using replace_comma_free by blast
  qed
  ultimately show ?thesis by blast
qed

lemma coord_tokens_join:
  assumes "list_all is_token ts" and "\<forall>t \<in> set ts. CHR '','' \<notin> set t"
  shows "coord_tokens (join '' '' ts) = ts"
proof -
  have "CHR '','' \<notin> set (join '' '' ts)"
    using set_join_blank [of ts] assms(2) by auto
  then have "replace_comma (join '' '' ts) = join '' '' ts"
    by (rule replace_comma_id)
  moreover have "filter (\<lambda>x. x \<noteq> []) ts = ts"
    using assms(1) by (simp add: list_all_iff is_token_def)
  ultimately show ?thesis
    using assms(1) by (simp add: coord_tokens_def split_join)
qed

lemma coord_tokens_idem: "coord_tokens (join '' '' (coord_tokens s)) = coord_tokens s"
  using coord_tokens_props [of s] by (intro coord_tokens_join) blast+

section \<open>Named positions and teleport\<close>


lemma check_coord_float: "py_float_ok c \<Longrightarrow> check_coord c = None"
  by (simp add: check_coord_def)




lemma pos_rows_loc_set:
  assumes "pos_rows name df = []"
  shows "pos_rows name (df_loc_set df k (name, v)) \<noteq> []"
    and "\<forall>r \<in> set (pos_rows name (df_loc_set df k (name, v))). snd (snd r) = v"
proof -
  from assms have none: "\<forall>r \<in> set df. fst (snd r) \<noteq> name"
    by (simp add: pos_rows_def filter_empty_conv)
  show "pos_rows name (df_loc_set df k (name, v)) \<noteq> []"
  proof (cases "k \<in> set (map fst df)")
    case True
    then obtain r where "r \<in> set df" "fst r = k" by auto
    then have "(k, name, v) \<in> set (df_loc_set df k (name, v))"
      using True by (force simp: df_loc_set_def)
    then have "(k, name, v) \<in> set (pos_rows name (df_loc_set df k (name, v)))"
      by (simp add: pos_rows_def)
    then show ?thesis
      by auto
  next
    case False
    then show ?thesis
      by (simp add: df_loc_set_def pos_rows_def)
  qed
  show "\<forall>r \<in> set (pos_rows name (df_loc_set df k (name, v))). snd (snd r) = v"
    using none by (auto simp: df_loc_set_def pos_rows_def split: if_splits)
qed

lemma resolve_after_add:
  assumes "pos_rows name df = []"
  shows "resolve_destination (Some (df_loc_set df k (name, v))) name = v"
proof -
  let ?m = "pos_rows name (df_loc_set df k (name, v))"
  from pos_rows_loc_set [OF assms, of k v] have ne: "?m \<noteq> []"
    and all: "\<forall>r \<in> set ?m. snd (snd r) = v"
    by blast+
  from ne have "hd ?m \<in> set ?m" by (rule hd_in_set)
  with all have "snd (snd (hd ?m)) = v" by blast
  with ne show ?thesis
    by (simp add: resolve_destination_def Let_def)
qed

lemma namedpos_command_add:
  assumes "split cmd_line = c # act # pos_name # m # ms" and "lower act = ''add''"
    and "named_pos_df srv = Attr stored"
    and "df = (case stored of None \<Rightarrow> [] | Some d \<Rightarrow> d)"
  shows "namedpos_command w srv cmd_line =
           namedpos_add w (srv\<lparr>named_pos_df := Attr (Some df)\<rparr>) df pos_name (m # ms)"
  using assms(1-3) unfolding assms(4) by (simp add: namedpos_command_def Let_def)

lemma tp_command_coords:
  assumes "split cmd_line = c # player # d # ds" and "\<not> startswith (join '' '' (d # ds)) ''@''"
    and "named_pos_df srv = Attr stored"
    and "toks = coord_tokens (resolve_destination stored (join '' '' (d # ds)))"
  shows "tp_command w srv cmd_line =
           (if length toks \<noteq> 3 then [Print ''[yellow]Position must be three coordinates (x y z)'']
            else case check_coords toks of
                   Some msg \<Rightarrow> [Print msg]
                 | None \<Rightarrow>
                     send_and_print srv (relay w 0 (''tp '' @ player @ '' '' @ join '' '' toks))
                       ''[red]Error teleporting player: ''
                       (''tp '' @ player @ '' '' @ join '' '' toks))"
  using assms(1-3) unfolding assms(4) by (simp add: tp_command_def Let_def split: option.splits)

lemma float_examples:
  "py_float_ok ''100''" "py_float_ok ''64''" "py_float_ok ''200''" "py_float_ok ''10''"
  "py_float_ok ''20''" "py_float_ok ''30''" "\<not> py_float_ok ''~''" "\<not> py_float_ok ''~+5''"
  "py_float_ok ''+5''"
  by (simp_all add: py_float_ok_def strip_sign_def floatnumber_def digitpart_def is_digit_def
        exponent_opt_def lower_def lower_char_def)

lemma check_coords_float: "list_all py_float_ok cs \<Longrightarrow> check_coords cs = None"
  by (induction cs) (simp_all add: check_coord_float)

lemma namedpos_add_accepts:
  assumes "length (coord_tokens (join '' '' tail)) = 3"
    and "list_all py_float_ok (coord_tokens (join '' '' tail))"
    and "pos_rows pos_name df = []"
  shows "\<exists>evs. namedpos_add w srv df pos_name tail =
           (srv\<lparr>named_pos_df :=
                  Attr (Some (df_loc_set df (length df)
                                (pos_name, join '' '' (coord_tokens (join '' '' tail)))))\<rparr>,
            Print (''[green]Added position '' @ quoted pos_name @ '' with coordinates ''
                   @ join '' '' (coord_tokens (join '' '' tail)))
            # Sql_exec sql_insert_named_pos
                [pos_name, join '' '' (coord_tokens (join '' '' tail))]
            # evs)"
proof -
  obtain evs where "after_sql w sql_insert_named_pos
        [pos_name, join '' '' (coord_tokens (join '' '' tail))]
        ''[red]Error managing named positions: ''
      = Sql_exec sql_insert_named_pos [pos_name, join '' '' (coord_tokens (join '' '' tail))] # evs"
    using after_sql_shape by blast
  with assms show ?thesis
    by (simp add: namedpos_add_def Let_def)
qed

section \<open>A stored position is a teleport destination\<close>

text \<open>
  Claim C7, as amended.  Let \<open>namedpos add\<close> succeed for a name that does not begin with
  \<open>@\<close>: the coordinate text has exactly three tokens after commas are turned into blanks,
  each a floating-point literal, and the name is not yet stored.  Then the store holds the
  name with the three tokens joined by blanks, and \<open>tp <player> <name>\<close> on the resulting
  state looks the name up and hands \<open>tp <player> <x> <y> <z>\<close> to the transport.  A name that
  begins with \<open>@\<close> can be stored but is never looked up, since \<open>tp\<close> reads it as a player.
\<close>

theorem named_position_round_trip:
  assumes "split add_line = c1 # act # name # m # ms" and "lower act = ''add''"
    and "named_pos_df srv = Attr stored"
    and "df = (case stored of None \<Rightarrow> [] | Some d \<Rightarrow> d)"
    and "coords = coord_tokens (join '' '' (m # ms))"
    and "length coords = 3" and "list_all py_float_ok coords"
    and "pos_rows name df = []"
    and "\<not> startswith name ''@''"
    and "split tp_line = [c2, player, name]"
    and "srv' = fst (namedpos_command w srv add_line)"
  shows "named_pos_df srv' = Attr (Some (df_loc_set df (length df) (name, join '' '' coords)))
       \<and> tp_command w' srv' tp_line =
           send_and_print srv' (relay w' 0 (''tp '' @ player @ '' '' @ join '' '' coords))
             ''[red]Error teleporting player: '' (''tp '' @ player @ '' '' @ join '' '' coords)
       \<and> transport_calls (tp_command w' srv' tp_line)
           = [''tp '' @ player @ '' '' @ join '' '' coords]"
proof -
  let ?df' = "df_loc_set df (length df) (name, join '' '' coords)"
  have "namedpos_command w srv add_line =
          namedpos_add w (srv\<lparr>named_pos_df := Attr (Some df)\<rparr>) df name (m # ms)"
    using assms(1-4) by (rule namedpos_command_add)
  moreover obtain evs where "namedpos_add w (srv\<lparr>named_pos_df := Attr (Some df)\<rparr>) df name (m # ms)
      = (srv\<lparr>named_pos_df := Attr (Some df)\<rparr>\<lparr>named_pos_df := Attr (Some ?df')\<rparr>, evs)"
    using namedpos_add_accepts [of "m # ms" name df w "srv\<lparr>named_pos_df := Attr (Some df)\<rparr>"]
      assms(5-8) by auto
  ultimately have st: "named_pos_df srv' = Attr (Some ?df')"
    using assms(11) by simp
  have dest: "join '' '' [name] = name"
    by simp
  have "resolve_destination (Some ?df') name = join '' '' coords"
    using assms(8) by (rule resolve_after_add)
  then have toks: "coords = coord_tokens (resolve_destination (Some ?df') (join '' '' [name]))"
    using assms(5) by (simp add: coord_tokens_idem)
  have "check_coords coords = None"
    using assms(7) by (rule check_coords_float)
  then have tp: "tp_command w' srv' tp_line =
           send_and_print srv' (relay w' 0 (''tp '' @ player @ '' '' @ join '' '' coords))
             ''[red]Error teleporting player: '' (''tp '' @ player @ '' '' @ join '' '' coords)"
    using tp_command_coords [OF assms(10) _ st toks, of w'] assms(6,9) by simp
  from st tp show ?thesis
    by simp
qed

text \<open>The example of the specification: \<open>home\<close> is stored and then used as a destination.\<close>

theorem named_position_round_trip_witness:
  "transport_calls
     (tp_command quiet_world
        (fst (namedpos_command quiet_world linux_server ''namedpos add home 100 64 200''))
        ''tp steve home'')
   = [''tp steve 100 64 200'']"
proof -
  have s1: "split ''namedpos add home 100 64 200''
              = [''namedpos'', ''add'', ''home'', ''100'', ''64'', ''200'']"
    and s2: "split ''tp steve home'' = [''tp'', ''steve'', ''home'']"
    by (simp_all add: split_def is_space_def)
  have lw: "lower ''add'' = ''add''"
    by (simp add: lower_def lower_char_def)
  have st: "named_pos_df linux_server = Attr (Some [])"
    by (simp add: linux_server_def)
  have df: "[] = (case Some [] of None \<Rightarrow> [] | Some (d :: named_pos) \<Rightarrow> d)"
    by simp
  have co: "[''100'', ''64'', ''200''] = coord_tokens (join '' '' [''100'', ''64'', ''200''])"
    by (simp add: coord_tokens_def replace_comma_def split_def is_space_def)
  have ok: "length [''100'', ''64'', ''200''] = 3"
    "list_all py_float_ok [''100'', ''64'', ''200'']"
    "pos_rows ''home'' [] = []" "\<not> startswith ''home'' ''@''"
    by (simp_all add: float_examples pos_rows_def)
  from named_position_round_trip [OF s1 lw st df co ok s2 refl, of quiet_world]
  show ?thesis
    by simp
qed

text \<open>
  The claim as stated fails for a name that begins with \<open>@\<close>: the position is stored, and
  the teleport sends the name without its first character instead of the coordinates.
\<close>

theorem at_name_not_resolved_counterexample:
  "named_pos_df (fst (namedpos_command quiet_world linux_server ''namedpos add @base 100 64 200''))
     = Attr (Some [(0, ''@base'', ''100 64 200'')])
   \<and> transport_calls
       (tp_command quiet_world
          (fst (namedpos_command quiet_world linux_server ''namedpos add @base 100 64 200''))
          ''tp steve @base'')
     = [''tp steve base'']"
proof -
  have s1: "split ''namedpos add @base 100 64 200''
              = [''namedpos'', ''add'', ''@base'', ''100'', ''64'', ''200'']"
    and s2: "split ''tp steve @base'' = [''tp'', ''steve'', ''@base'']"
    by (simp_all add: split_def is_space_def)
  have lw: "lower ''add'' = ''add''"
    by (simp add: lower_def lower_char_def)
  have co: "coord_tokens ''100 64 200'' = [''100'', ''64'', ''200'']"
    by (simp add: coord_tokens_def replace_comma_def split_def is_space_def)
  have a: "named_pos_df (fst (namedpos_command quiet_world linux_server
              ''namedpos add @base 100 64 200''))
     = Attr (Some [(0, ''@base'', ''100 64 200'')])"
    by (simp add: namedpos_command_def s1 lw Let_def linux_server_def namedpos_add_def co
          float_examples pos_rows_def df_loc_set_def)
  have b: "transport_calls (tp_command quiet_world srv ''tp steve @base'') = [''tp steve base'']"
    for srv
    by (simp add: tp_command_def s2 Let_def)
  from a b show ?thesis by simp
qed

section \<open>\<open>maxenchant\<close>: one transport call per matching enchantment\<close>

lemma apply_enchant_transport [simp]:
  "transport_calls (apply_enchant w srv player i e) = [enchant_text player e]"
  by (simp add: apply_enchant_def send_command_def Let_def split: option.splits)

lemma apply_enchants_transport [simp]:
  "transport_calls (apply_enchants w srv player i es) = map (enchant_text player) es"
  by (induction es arbitrary: i) simp_all

lemma apply_enchants_rounds:
  "apply_enchants w srv player i es =
     concat (map (\<lambda>(k, e). apply_enchant w srv player k e) (zip [i ..< i + length es] es))"
proof (induction es arbitrary: i)
  case Nil
  then show ?case by simp
next
  case (Cons e es)
  have "[i ..< i + length (e # es)] = i # [Suc i ..< Suc i + length es]"
    by (simp add: upt_rec)
  with Cons [of "Suc i"] show ?case
    by simp
qed

lemma apply_enchant_report:
  "apply_enchant w srv player i e =
     fst (send_command srv (relay w i (enchant_text player e)) (enchant_text player e))
     @ [Print (case snd (send_command srv (relay w i (enchant_text player e)) (enchant_text player e)) of
                 Inr result \<Rightarrow> ''[green]'' @ fst (snd e) @ '' (Level '' @ str_int (snd (snd e))
                                @ ''): '' @ result
               | Inl ex \<Rightarrow> ''[red]Failed to apply '' @ fst (snd e) @ '': '' @ exn_text ex)]"
  by (simp add: apply_enchant_def Let_def split: prod.splits sum.splits)

lemma int_of_or_one: "cell \<noteq> Level_nan \<Longrightarrow> \<exists>v. int_of_num (or_one cell) = Some v"
  by (cases cell) (simp_all add: or_one_def int_of_num_def)

lemma matching_loop_levels:
  assumes "\<forall>r \<in> set rows. applies itemtype r \<longrightarrow> enchantment_max_level r \<noteq> Level_nan"
  shows "matching_loop itemtype rows matching =
           Some (matching
                 @ map (\<lambda>row. (res_id row, res_name row,
                                the (int_of_num (or_one (enchantment_max_level row)))))
                     (filter (applies itemtype) rows))"
  using assms
proof (induction rows arbitrary: matching)
  case Nil
  then show ?case by simp
next
  case (Cons row rows)
  show ?case
  proof (cases "applies itemtype row")
    case False
    with Cons show ?thesis by simp
  next
    case True
    with Cons.prems obtain v where "int_of_num (or_one (enchantment_max_level row)) = Some v"
      using int_of_or_one by fastforce
    with True Cons show ?thesis by simp
  qed
qed

lemma matching_loop_raises:
  assumes "\<exists>r \<in> set rows. applies itemtype r \<and> enchantment_max_level r = Level_nan"
  shows "matching_loop itemtype rows matching = None"
  using assms
proof (induction rows arbitrary: matching)
  case Nil
  then show ?case by simp
next
  case (Cons row rows)
  show ?case
  proof (cases "applies itemtype row \<and> enchantment_max_level row = Level_nan")
    case True
    then show ?thesis
      by (simp add: or_one_def int_of_num_def)
  next
    case False
    with Cons.prems have "\<exists>r \<in> set rows. applies itemtype r \<and> enchantment_max_level r = Level_nan"
      by auto
    with Cons.IH show ?thesis
      by (simp split: option.splits)
  qed
qed

lemma selected_rows:
  "filter (applies itemtype) (enchantments_of df) =
     filter (\<lambda>r. resource_type r = ''enchantment''
                  \<and> (\<exists>ap. enchantment_applies_to r = Some ap
                          \<and> (str_in ''any'' (lower ap) \<or> str_in (lower itemtype) (lower ap)))) df"
  unfolding enchantments_of_def filter_filter
  by (rule filter_cong) (auto simp: applies_def split: option.splits)

text \<open>
  Claim C8, as amended.  With a catalog loaded, \<open>maxenchant\<close> selects the rows of type
  \<open>enchantment\<close> whose \<open>applies_to\<close> text contains \<open>any\<close> or the given item type as a
  substring, both compared in lower case; it does not split the text into tags, so \<open>bow\<close>
  also selects an enchantment for \<open>crossbow\<close> only.  When every selected row carries a
  maximum level (no NaN), the transport gets exactly one command per selected row, in
  catalog order, each at the maximum level of its row as an integer (1 for a zero or
  \<open>None\<close> cell).  This holds whatever the individual calls do: the run is the header, one
  round per selected enchantment and the closing line, and every round consists of its own
  transport call followed by one report of that call's own outcome, success or failure.
\<close>

theorem maxenchant_one_call_each:
  assumes "resources_df srv = Some df" and "split cmd_line = c # a # b # cs"
    and "player = last (a # b # cs)" and "itemtype = join '' '' (butlast (a # b # cs))"
    and "selected = filter (\<lambda>r. resource_type r = ''enchantment''
                      \<and> (\<exists>ap. enchantment_applies_to r = Some ap
                              \<and> (str_in ''any'' (lower ap) \<or> str_in (lower itemtype) (lower ap)))) df"
    and "\<forall>r \<in> set selected. enchantment_max_level r \<noteq> Level_nan"
    and "matching = map (\<lambda>row. (res_id row, res_name row,
                                 the (int_of_num (or_one (enchantment_max_level row))))) selected"
  shows
  "transport_calls (maxenchant_command w srv cmd_line)
     = map (\<lambda>row. ''enchant '' @ player @ '' '' @ res_id row @ '' ''
                   @ str_int (the (int_of_num (or_one (enchantment_max_level row))))) selected
   \<and> (selected \<noteq> [] \<longrightarrow>
        maxenchant_command w srv cmd_line =
          Print (''[green]Applying '' @ str_int (int (length selected))
                 @ '' enchantments to '' @ player @ [CHR 0x27] @ ''s '' @ itemtype @ ''...'')
          # concat (map (\<lambda>(k, e). apply_enchant w srv player k e)
                      (zip [0 ..< length selected] matching))
          @ [Print ''[green]Finished applying enchantments!''])
   \<and> (\<forall>k e. apply_enchant w srv player k e =
          fst (send_command srv (relay w k (enchant_text player e)) (enchant_text player e))
          @ [Print (case snd (send_command srv (relay w k (enchant_text player e))
                                (enchant_text player e)) of
                      Inr result \<Rightarrow> ''[green]'' @ fst (snd e) @ '' (Level ''
                                     @ str_int (snd (snd e)) @ ''): '' @ result
                    | Inl ex \<Rightarrow> ''[red]Failed to apply '' @ fst (snd e) @ '': ''
                                 @ exn_text ex)])"
proof -
  have sel: "selected = filter (applies itemtype) (enchantments_of df)"
    unfolding assms(5) by (rule selected_rows [symmetric])
  have "\<forall>r \<in> set (enchantments_of df). applies itemtype r \<longrightarrow> enchantment_max_level r \<noteq> Level_nan"
    using assms(6) unfolding sel by simp
  then have m: "matching_enchants itemtype df = Some matching"
    unfolding matching_enchants_def assms(7) sel by (simp add: matching_loop_levels)
  have cmd: "maxenchant_command w srv cmd_line =
      (if matching = [] then
         Print (''[yellow]No enchantments found for item type: '' @ itemtype) #
         Print ''[yellow]Valid item types:'' #
         map (\<lambda>t. Print (''  - '' @ t)) (valid_item_types df)
       else
         Print (''[green]Applying '' @ str_int (int (length matching))
                @ '' enchantments to '' @ player @ [CHR 0x27] @ ''s '' @ itemtype @ ''...'') #
         apply_enchants w srv player 0 matching
         @ [Print ''[green]Finished applying enchantments!''])"
    using assms(1-4) m by (simp add: maxenchant_command_def Let_def)
  have len: "length matching = length selected" and emp: "matching = [] \<longleftrightarrow> selected = []"
    unfolding assms(7) by simp_all
  have "transport_calls (maxenchant_command w srv cmd_line) = map (enchant_text player) matching"
    unfolding cmd by simp
  then have one: "transport_calls (maxenchant_command w srv cmd_line)
     = map (\<lambda>row. ''enchant '' @ player @ '' '' @ res_id row @ '' ''
                   @ str_int (the (int_of_num (or_one (enchantment_max_level row))))) selected"
    unfolding assms(7) by (simp add: enchant_text_def)
  have two: "selected \<noteq> [] \<longrightarrow>
        maxenchant_command w srv cmd_line =
          Print (''[green]Applying '' @ str_int (int (length selected))
                 @ '' enchantments to '' @ player @ [CHR 0x27] @ ''s '' @ itemtype @ ''...'')
          # concat (map (\<lambda>(k, e). apply_enchant w srv player k e)
                      (zip [0 ..< length selected] matching))
          @ [Print ''[green]Finished applying enchantments!'']"
    unfolding cmd using apply_enchants_rounds [of w srv player 0 matching]
    by (simp add: len emp)
  from one two apply_enchant_report show ?thesis
    by blast
qed

theorem maxenchant_one_call_each_witness:
  "transport_calls (maxenchant_command flaky_world catalog_server ''maxenchant sword steve'')
     = [''enchant steve sharpness 5'', ''enchant steve unbreaking 3'']
   \<and> maxenchant_command flaky_world catalog_server ''maxenchant sword steve''
     = [Print ''[green]Applying 2 enchantments to steve's sword...'',
        Transport_call ''enchant steve sharpness 5'',
        Tmux_send_keys ''minecraft'' (''enchant steve sharpness 5'' @ [CHR 0x0A]),
        Print ''[red]Failed to send command: tmux failed'',
        Print ''[red]Failed to apply Sharpness: tmux failed'',
        Transport_call ''enchant steve unbreaking 3'',
        Tmux_send_keys ''minecraft'' (''enchant steve unbreaking 3'' @ [CHR 0x0A]),
        Print ''[green]Unbreaking (Level 3): Command sent successfully'',
        Print ''[green]Finished applying enchantments!'']"
proof -
  have df: "resources_df catalog_server = Some example_catalog"
    by (simp add: catalog_server_def linux_server_def)
  have sp: "split ''maxenchant sword steve'' = [''maxenchant'', ''sword'', ''steve'']"
    by (simp add: split_def is_space_def)
  have pl: "''steve'' = last [''sword'', ''steve'']"
    and it: "''sword'' = join '' '' (butlast [''sword'', ''steve''])"
    by simp_all
  have lw: "lower ''sword'' = ''sword''" "lower ''sword,axe'' = ''sword,axe''" "lower ''any'' = ''any''"
    by (simp_all add: lower_def lower_char_def)
  have n: "str_int 5 = ''5''" "str_int 3 = ''3''" "str_int 2 = ''2''"
    by (simp_all add: str_int_def str_nat.simps digit_char_def)
  have sel: "[sharpness_row, unbreaking_row]
      = filter (\<lambda>r. resource_type r = ''enchantment''
                  \<and> (\<exists>ap. enchantment_applies_to r = Some ap
                          \<and> (str_in ''any'' (lower ap) \<or> str_in (lower ''sword'') (lower ap))))
          example_catalog"
    by (simp add: catalog_eval lw)
  have lv: "\<forall>r \<in> set [sharpness_row, unbreaking_row]. enchantment_max_level r \<noteq> Level_nan"
    by (simp add: catalog_eval)
  have m: "[(''sharpness'', ''Sharpness'', 5), (''unbreaking'', ''Unbreaking'', 3)]
      = map (\<lambda>row. (res_id row, res_name row,
                     the (int_of_num (or_one (enchantment_max_level row)))))
          [sharpness_row, unbreaking_row]"
    by (simp add: catalog_eval int_of_num_def)
  note t = maxenchant_one_call_each [OF df sp pl it sel lv m, of flaky_world]
  from t have "transport_calls (maxenchant_command flaky_world catalog_server ''maxenchant sword steve'')
     = map (\<lambda>row. ''enchant '' @ ''steve'' @ '' '' @ res_id row @ '' ''
                   @ str_int (the (int_of_num (or_one (enchantment_max_level row)))))
         [sharpness_row, unbreaking_row]"
    by blast
  then have a: "transport_calls (maxenchant_command flaky_world catalog_server ''maxenchant sword steve'')
     = [''enchant steve sharpness 5'', ''enchant steve unbreaking 3'']"
    by (simp add: catalog_eval int_of_num_def n)
  from t have "maxenchant_command flaky_world catalog_server ''maxenchant sword steve'' =
          Print (''[green]Applying '' @ str_int (int (length [sharpness_row, unbreaking_row]))
                 @ '' enchantments to '' @ ''steve'' @ [CHR 0x27] @ ''s '' @ ''sword'' @ ''...'')
          # concat (map (\<lambda>(k, e). apply_enchant flaky_world catalog_server ''steve'' k e)
                      (zip [0 ..< length [sharpness_row, unbreaking_row]]
                           [(''sharpness'', ''Sharpness'', 5), (''unbreaking'', ''Unbreaking'', 3)]))
          @ [Print ''[green]Finished applying enchantments!'']"
    by simp
  then have b: "maxenchant_command flaky_world catalog_server ''maxenchant sword steve''
     = [Print ''[green]Applying 2 enchantments to steve's sword...'',
        Transport_call ''enchant steve sharpness 5'',
        Tmux_send_keys ''minecraft'' (''enchant steve sharpness 5'' @ [CHR 0x0A]),
        Print ''[red]Failed to send command: tmux failed'',
        Print ''[red]Failed to apply Sharpness: tmux failed'',
        Transport_call ''enchant steve unbreaking 3'',
        Tmux_send_keys ''minecraft'' (''enchant steve unbreaking 3'' @ [CHR 0x0A]),
        Print ''[green]Unbreaking (Level 3): Command sent successfully'',
        Print ''[green]Finished applying enchantments!'']"
    by (simp add: n upt_rec apply_enchant_def enchant_text_def send_command_def
          flaky_world_def catalog_server_def linux_server_def)
  from a b show ?thesis by blast
qed

text \<open>
  The claim as first stated speaks of the set of tags in \<open>applies_to\<close>.  The tags of the
  crossbow enchantment are just \<open>crossbow\<close>: neither \<open>bow\<close> nor \<open>any\<close> is among them, and
  still \<open>maxenchant bow steve\<close> sends the enchantment, because \<open>bow\<close> is a substring of the
  text.
\<close>

theorem maxenchant_substring_counterexample:
  "map strip (split_on (CHR '','') (lower ''crossbow'')) = [''crossbow'']
   \<and> ''bow'' \<notin> set (map strip (split_on (CHR '','') (lower ''crossbow'')))
   \<and> ''any'' \<notin> set (map strip (split_on (CHR '','') (lower ''crossbow'')))
   \<and> enchantment_applies_to multishot_row = Some ''crossbow''
   \<and> transport_calls (maxenchant_command quiet_world
        (linux_server\<lparr>resources_df := Some [multishot_row]\<rparr>) ''maxenchant bow steve'')
     = [''enchant steve multishot 1'']"
proof -
  have lw: "lower ''crossbow'' = ''crossbow''" "lower ''bow'' = ''bow''"
    by (simp_all add: lower_def lower_char_def)
  have tags: "map strip (split_on (CHR '','') ''crossbow'') = [''crossbow'']"
    by (simp add: strip_def is_space_def)
  have sp: "split ''maxenchant bow steve'' = [''maxenchant'', ''bow'', ''steve'']"
    by (simp add: split_def is_space_def)
  have n: "str_int 1 = ''1''"
    by (simp add: str_int_def str_nat.simps digit_char_def)
  have m: "matching_enchants ''bow'' [multishot_row] = Some [(''multishot'', ''Multishot'', 1)]"
    by (simp add: matching_enchants_def enchantments_of_def applies_def int_of_num_def
          catalog_eval lw)
  have "transport_calls (maxenchant_command quiet_world
        (linux_server\<lparr>resources_df := Some [multishot_row]\<rparr>) ''maxenchant bow steve'')
     = [''enchant steve multishot 1'']"
    by (simp add: maxenchant_command_def sp m enchant_text_def n)
  with tags lw show ?thesis
    by (simp add: multishot_row_def)
qed

text \<open>
  A selected row whose maximum level is NULL reaches the handler as NaN, which is truthy,
  so \<open>or 1\<close> keeps it and \<open>int(float(nan))\<close> raises while the list of matches is still being
  built: the run ends in the error line of the outer \<open>except\<close> and the transport is not
  called at all, also not for the enchantments that do carry a level.
\<close>

lemma maxenchant_missing_level_no_call:
  "maxenchant_command quiet_world mending_server ''maxenchant sword steve''
     = [Print ''[red]Error applying enchantments: cannot convert float NaN to integer'']
   \<and> transport_calls (maxenchant_command quiet_world mending_server ''maxenchant sword steve'') = []"
proof -
  have sp: "split ''maxenchant sword steve'' = [''maxenchant'', ''sword'', ''steve'']"
    by (simp add: split_def is_space_def)
  have lw: "lower ''sword'' = ''sword''" "lower ''any'' = ''any''"
    by (simp_all add: lower_def lower_char_def)
  have "mending_row \<in> set (enchantments_of (example_catalog @ [mending_row]))"
    by (simp add: enchantments_of_def mending_row_def)
  moreover have "applies ''sword'' mending_row" "enchantment_max_level mending_row = Level_nan"
    by (simp_all add: applies_def mending_row_def lw)
  ultimately have "matching_enchants ''sword'' (example_catalog @ [mending_row]) = None"
    unfolding matching_enchants_def by (intro matching_loop_raises) blast
  then have "maxenchant_command quiet_world mending_server ''maxenchant sword steve''
     = [Print ''[red]Error applying enchantments: cannot convert float NaN to integer'']"
    by (simp add: maxenchant_command_def sp mending_server_def linux_server_def)
  then show ?thesis
    by simp
qed

section \<open>The player list\<close>

lemma current_players_finite [simp]: "finite (current_players_of df)"
  by (simp add: current_players_of_def Let_def)

lemma current_players_none [simp]: "current_players_of [] = {}"
  by (simp add: current_players_of_def)

lemma split_on_nonempty [simp]: "split_on d s \<noteq> []"
  by (induction s) (simp_all split: list.splits)

lemma split_on_free: "d \<notin> set x \<Longrightarrow> split_on d x = [x]"
  by (induction x) auto

lemma split_on_append: "d \<notin> set x \<Longrightarrow> split_on d (x @ d # s) = x # split_on d s"
  by (induction x) auto

lemma split_on_parts: "t \<in> set (split_on d s) \<Longrightarrow> d \<notin> set t"
proof (induction s arbitrary: t)
  case Nil
  then show ?case by simp
next
  case (Cons c s)
  show ?case
  proof (cases "c = d")
    case True
    with Cons show ?thesis by auto
  next
    case False
    obtain u us where u: "split_on d s = u # us"
      by (cases "split_on d s") simp_all
    with False Cons.prems have "t = c # u \<or> t \<in> set us"
      by simp
    with False u Cons.IH show ?thesis
      by auto
  qed
qed

lemma split_on_join:
  "names \<noteq> [] \<Longrightarrow> \<forall>n \<in> set names. d \<notin> set n \<Longrightarrow> split_on d (join [d] names) = names"
proof (induction names rule: induct_list012)
  case 1
  then show ?case by simp
next
  case (2 x)
  then show ?case by (simp add: split_on_free)
next
  case (3 x y zs)
  then show ?case by (simp add: split_on_append)
qed

lemma join_nonempty: "n \<in> set names \<Longrightarrow> n \<noteq> [] \<Longrightarrow> join sep names \<noteq> []"
  by (induction names rule: induct_list012) auto

lemma current_players_comma_free: "n \<in> current_players_of df \<Longrightarrow> CHR '','' \<notin> set n"
  by (auto simp: current_players_of_def Let_def split_on_parts split: if_splits)

lemma map_of_set_first_players:
  "filter (\<lambda>r. fst r = ''players'') df \<noteq> [] \<Longrightarrow>
   map_of (set_first_players v df) ''players'' = Some v"
  by (induction df) auto

lemma map_of_append_players:
  "filter (\<lambda>r. fst r = ''players'') df = [] \<Longrightarrow>
   map_of (df @ [(''players'', v)]) ''players'' = Some v"
  by (induction df) (auto split: if_splits)

lemma hd_set_first_players:
  "filter (\<lambda>r. fst r = ''players'') df \<noteq> [] \<Longrightarrow>
   \<exists>rs. filter (\<lambda>r. fst r = ''players'') (set_first_players v df) = (''players'', v) # rs"
  by (induction df) auto

lemma current_players_set_first:
  "filter (\<lambda>r. fst r = ''players'') df \<noteq> [] \<Longrightarrow>
   current_players_of (set_first_players v df) = (if v \<noteq> [] then set (split_on (CHR '','') v) else {})"
  using hd_set_first_players [of df v] by (auto simp: current_players_of_def)

lemma current_players_append:
  "filter (\<lambda>r. fst r = ''players'') df = [] \<Longrightarrow>
   current_players_of (df @ [(''players'', v)]) = (if v \<noteq> [] then set (split_on (CHR '','') v) else {})"
  by (simp add: current_players_of_def)

lemma players_value_sorted:
  "finite ps \<Longrightarrow>
   \<exists>names. players_value ps = join '','' names \<and> sorted names \<and> distinct names \<and> set names = ps"
  by (rule exI [of _ "sorted_list_of_set ps"]) (simp add: players_value_def)

lemma sorted_list_props:
  "finite A \<Longrightarrow> set (sorted_list_of_set A) = A \<and> distinct (sorted_list_of_set A)"
  by simp

lemma count_list_distinct: "distinct xs \<Longrightarrow> x \<in> set xs \<Longrightarrow> count_list xs x = 1"
  by (induction xs) auto

lemma players_value_read_back:
  assumes "finite ps" and "n \<in> ps" and "n \<noteq> []" and "\<forall>p \<in> ps. CHR '','' \<notin> set p"
  shows "players_value ps \<noteq> []"
    and "split_on (CHR '','') (players_value ps) = sorted_list_of_set ps"
proof -
  from assms(1,2) have n: "n \<in> set (sorted_list_of_set ps)"
    by simp
  from join_nonempty [OF n assms(3)] show "players_value ps \<noteq> []"
    unfolding players_value_def .
  from n have "sorted_list_of_set ps \<noteq> []"
    by auto
  moreover from assms(1,4) have "\<forall>p \<in> set (sorted_list_of_set ps). CHR '','' \<notin> set p"
    by simp
  ultimately show "split_on (CHR '','') (players_value ps) = sorted_list_of_set ps"
    unfolding players_value_def by (rule split_on_join)
qed

lemma save_players_result:
  "save_players w srv df ps =
     (srv\<lparr>settings_df := Some (if filter (\<lambda>r. fst r = ''players'') df = []
                                then df @ [(''players'', players_value ps)]
                                else set_first_players (players_value ps) df)\<rparr>,
      Sql_exec (if filter (\<lambda>r. fst r = ''players'') df = [] then sql_insert_players
                else sql_update_players) [players_value ps]
      # (case sql w (if filter (\<lambda>r. fst r = ''players'') df = [] then sql_insert_players
                     else sql_update_players) [players_value ps] of
           None \<Rightarrow> []
         | Some m \<Rightarrow> [Print (''[red]Error managing players list: '' @ m)]))"
  by (simp add: save_players_def after_sql_def Let_def)

lemma player_command_add:
  assumes "split cmd_line = c # act # playername # rest" and "lower act = ''add''"
    and "df = (case settings_df srv of None \<Rightarrow> [] | Some d \<Rightarrow> d)"
  shows "player_command w srv cmd_line =
           (if playername \<in> current_players_of df then
              (srv\<lparr>settings_df := Some df\<rparr>,
               [Print (''[yellow]Player '' @ quoted playername @ '' is already in the list'')])
            else
              (case save_players w (srv\<lparr>settings_df := Some df\<rparr>) df
                      (insert playername (current_players_of df)) of
                 (srv2, evs) \<Rightarrow>
                   (srv2, Print (''[green]Added player '' @ quoted playername @ '' to the list'')
                          # evs)))"
  using assms(1,2) unfolding assms(3) by (simp add: player_command_def Let_def)

lemma player_command_del:
  assumes "split cmd_line = c # act # playername # rest" and "lower act = ''del''"
    and "df = (case settings_df srv of None \<Rightarrow> [] | Some d \<Rightarrow> d)"
  shows "player_command w srv cmd_line =
           (if playername \<notin> current_players_of df then
              (srv\<lparr>settings_df := Some df\<rparr>,
               [Print (''[yellow]Player '' @ quoted playername @ '' is not in the list'')])
            else
              (case save_players w (srv\<lparr>settings_df := Some df\<rparr>) df
                      (current_players_of df - {playername}) of
                 (srv2, evs) \<Rightarrow>
                   (srv2, Print (''[green]Removed player '' @ quoted playername @ '' from the list'')
                          # evs)))"
  using assms(1,2) unfolding assms(3) by (simp add: player_command_def Let_def)

text \<open>
  Claim C9.  \<open>player add\<close> with a name already in the player set only reports that the
  player is already in the list: the server state is returned as it was and no statement
  is executed on the database.  Every \<open>add\<close> of a new name and every \<open>del\<close> of a present one
  writes the new players value, the comma-joined, sorted, duplicate-free listing of the new
  set, to the \<open>players\<close> row of the frame in memory (the first such row, or a new last row)
  and hands the same value to the database, with the \<open>UPDATE\<close> statement of the players
  setting when the frame had such a row and the \<open>INSERT\<close> statement otherwise.  For a name
  without a comma, the value written by an \<open>add\<close> holds the name exactly once, reads back as
  the new set, and the same \<open>add\<close> typed again only reports that the player is already in
  the list.
\<close>

theorem player_list_persisted:
  assumes "split cmd_line = c # act # playername # rest"
    and "df = (case settings_df srv of None \<Rightarrow> [] | Some d \<Rightarrow> d)"
    and "ps = current_players_of df"
    and "stmt = (if filter (\<lambda>r. fst r = ''players'') df = [] then sql_insert_players
                 else sql_update_players)"
    and "frame = (\<lambda>v. if filter (\<lambda>r. fst r = ''players'') df = [] then df @ [(''players'', v)]
                       else set_first_players v df)"
    and "added = players_value (insert playername ps)"
    and "removed = players_value (ps - {playername})"
  shows
  "(lower act = ''add'' \<and> playername \<in> ps \<longrightarrow>
      player_command w srv cmd_line =
        (srv, [Print (''[yellow]Player '' @ quoted playername @ '' is already in the list'')]))
   \<and> (lower act = ''add'' \<and> playername \<notin> ps \<longrightarrow>
        player_command w srv cmd_line =
          (srv\<lparr>settings_df := Some (frame added)\<rparr>,
           Print (''[green]Added player '' @ quoted playername @ '' to the list'')
           # Sql_exec stmt [added]
           # (case sql w stmt [added] of
                None \<Rightarrow> []
              | Some m \<Rightarrow> [Print (''[red]Error managing players list: '' @ m)]))
        \<and> map_of (frame added) ''players'' = Some added
        \<and> (CHR '','' \<notin> set playername \<longrightarrow>
             current_players_of (frame added) = insert playername ps
             \<and> count_list (split_on (CHR '','') added) playername = 1
             \<and> player_command w (srv\<lparr>settings_df := Some (frame added)\<rparr>) cmd_line =
                 (srv\<lparr>settings_df := Some (frame added)\<rparr>,
                  [Print (''[yellow]Player '' @ quoted playername
                          @ '' is already in the list'')])))
   \<and> (lower act = ''del'' \<and> playername \<in> ps \<longrightarrow>
        player_command w srv cmd_line =
          (srv\<lparr>settings_df := Some (frame removed)\<rparr>,
           Print (''[green]Removed player '' @ quoted playername @ '' from the list'')
           # Sql_exec stmt [removed]
           # (case sql w stmt [removed] of
                None \<Rightarrow> []
              | Some m \<Rightarrow> [Print (''[red]Error managing players list: '' @ m)]))
        \<and> map_of (frame removed) ''players'' = Some removed)
   \<and> (\<forall>qs. finite qs \<longrightarrow>
        (\<exists>names. players_value qs = join '','' names \<and> sorted names \<and> distinct names
                 \<and> set names = qs))"
proof (intro conjI impI allI)
  assume a: "lower act = ''add'' \<and> playername \<in> ps"
  then have "df \<noteq> []"
    using assms(3) by auto
  with assms(2) have "settings_df srv = Some df"
    by (cases "settings_df srv") simp_all
  then have "srv\<lparr>settings_df := Some df\<rparr> = srv"
    by simp
  with a show "player_command w srv cmd_line =
        (srv, [Print (''[yellow]Player '' @ quoted playername @ '' is already in the list'')])"
    using player_command_add [OF assms(1) _ assms(2), of w] assms(3) by simp
next
  assume a: "lower act = ''add'' \<and> playername \<notin> ps"
  then show "player_command w srv cmd_line =
          (srv\<lparr>settings_df := Some (frame added)\<rparr>,
           Print (''[green]Added player '' @ quoted playername @ '' to the list'')
           # Sql_exec stmt [added]
           # (case sql w stmt [added] of
                None \<Rightarrow> []
              | Some m \<Rightarrow> [Print (''[red]Error managing players list: '' @ m)]))"
    using player_command_add [OF assms(1) _ assms(2), of w] assms(3)
    unfolding assms(4,5,6) by (simp add: save_players_result)
next
  show "map_of (frame added) ''players'' = Some added"
    using map_of_set_first_players [of df added] map_of_append_players [of df added]
    unfolding assms(5) by (simp del: map_of_append)
next
  assume a: "lower act = ''add'' \<and> playername \<notin> ps" and cf: "CHR '','' \<notin> set playername"
  from split_tokens [of cmd_line] assms(1) have ne: "playername \<noteq> []"
    by (simp add: is_token_def)
  have fin: "finite (insert playername ps)" and mem: "playername \<in> insert playername ps"
    unfolding assms(3) by simp_all
  have free: "\<forall>p \<in> insert playername ps. CHR '','' \<notin> set p"
    using cf current_players_comma_free unfolding assms(3) by blast
  note rb = players_value_read_back [OF fin mem ne free]
  have cur: "current_players_of (frame added) = set (split_on (CHR '','') added)"
    using rb(1) unfolding assms(5,6)
    by (simp add: current_players_set_first current_players_append)
  also have "\<dots> = insert playername ps"
    unfolding assms(6) rb(2) using sorted_list_props [OF fin] by blast
  finally show r: "current_players_of (frame added) = insert playername ps" .
  show "count_list (split_on (CHR '','') added) playername = 1"
    unfolding assms(6) rb(2) using sorted_list_props [OF fin]
    by (intro count_list_distinct) blast+
  have "frame added = (case settings_df (srv\<lparr>settings_df := Some (frame added)\<rparr>) of
                         None \<Rightarrow> [] | Some d \<Rightarrow> d)"
    by simp
  from player_command_add [OF assms(1) _ this, of w] a r
  show "player_command w (srv\<lparr>settings_df := Some (frame added)\<rparr>) cmd_line =
                 (srv\<lparr>settings_df := Some (frame added)\<rparr>,
                  [Print (''[yellow]Player '' @ quoted playername
                          @ '' is already in the list'')])"
    by simp
next
  assume a: "lower act = ''del'' \<and> playername \<in> ps"
  then show "player_command w srv cmd_line =
          (srv\<lparr>settings_df := Some (frame removed)\<rparr>,
           Print (''[green]Removed player '' @ quoted playername @ '' from the list'')
           # Sql_exec stmt [removed]
           # (case sql w stmt [removed] of
                None \<Rightarrow> []
              | Some m \<Rightarrow> [Print (''[red]Error managing players list: '' @ m)]))"
    using player_command_del [OF assms(1) _ assms(2), of w] assms(3)
    unfolding assms(4,5,7) by (simp add: save_players_result)
next
  show "map_of (frame removed) ''players'' = Some removed"
    using map_of_set_first_players [of df removed] map_of_append_players [of df removed]
    unfolding assms(5) by (simp del: map_of_append)
next
  fix qs :: "string set"
  assume "finite qs"
  then show "\<exists>names. players_value qs = join '','' names \<and> sorted names \<and> distinct names
                 \<and> set names = qs"
    by (rule players_value_sorted)
qed

text \<open>
  The theorem on a server whose players value is \<open>carl,al\<close>: a repeated add, a new add, the
  same add typed again and a delete, each with the \<open>UPDATE\<close> statement; and on a server
  without a \<open>players\<close> row, where the add takes the \<open>INSERT\<close> statement.
\<close>

theorem player_list_persisted_witness:
  "player_command quiet_world players_server ''player add carl''
     = (players_server, [Print (''[yellow]Player '' @ quoted ''carl'' @ '' is already in the list'')])
   \<and> player_command quiet_world players_server ''player add bob''
     = (players_server\<lparr>settings_df := Some [(''players'', ''al,bob,carl'')]\<rparr>,
        [Print (''[green]Added player '' @ quoted ''bob'' @ '' to the list''),
         Sql_exec sql_update_players [''al,bob,carl'']])
   \<and> player_command quiet_world
        (players_server\<lparr>settings_df := Some [(''players'', ''al,bob,carl'')]\<rparr>) ''player add bob''
     = (players_server\<lparr>settings_df := Some [(''players'', ''al,bob,carl'')]\<rparr>,
        [Print (''[yellow]Player '' @ quoted ''bob'' @ '' is already in the list'')])
   \<and> count_list (split_on (CHR '','') ''al,bob,carl'') ''bob'' = 1
   \<and> player_command quiet_world players_server ''player del carl''
     = (players_server\<lparr>settings_df := Some [(''players'', ''al'')]\<rparr>,
        [Print (''[green]Removed player '' @ quoted ''carl'' @ '' from the list''),
         Sql_exec sql_update_players [''al'']])
   \<and> player_command quiet_world linux_server ''player add bob''
     = (linux_server\<lparr>settings_df := Some [(''players'', ''bob'')]\<rparr>,
        [Print (''[green]Added player '' @ quoted ''bob'' @ '' to the list''),
         Sql_exec sql_insert_players [''bob'']])"
proof -
  have s1: "split ''player add carl'' = [''player'', ''add'', ''carl'']"
    and s2: "split ''player add bob'' = [''player'', ''add'', ''bob'']"
    and s3: "split ''player del carl'' = [''player'', ''del'', ''carl'']"
    by (simp_all add: split_def is_space_def)
  have df: "[(''players'', ''carl,al'')]
              = (case settings_df players_server of None \<Rightarrow> [] | Some d \<Rightarrow> d)"
    by (simp add: players_server_def linux_server_def)
  have df0: "[] = (case settings_df linux_server of None \<Rightarrow> [] | Some d \<Rightarrow> d)"
    by (simp add: linux_server_def)
  have ps: "set [''carl'', ''al''] = current_players_of [(''players'', ''carl,al'')]"
    by (simp add: current_players_of_def)
  have ps0: "{} = current_players_of []"
    by simp
  have lw: "lower ''add'' = ''add''" "lower ''del'' = ''del''"
    by (simp_all add: lower_def lower_char_def)
  have sq: "\<And>stmt params. sql quiet_world stmt params = None"
    by (simp add: quiet_world_def)
  have v1: "players_value (insert ''bob'' (set [''carl'', ''al''])) = ''al,bob,carl''"
  proof -
    have "insert ''bob'' (set [''carl'', ''al'']) = set [''bob'', ''carl'', ''al'']"
      by simp
    then show ?thesis
      by (simp only: players_value_def sorted_list_of_set_sort_remdups) simp
  qed
  have v2: "players_value (set [''carl'', ''al''] - {''carl''}) = ''al''"
  proof -
    have "set [''carl'', ''al''] - {''carl''} = set [''al'']"
      by auto
    then show ?thesis
      by (simp only: players_value_def sorted_list_of_set_sort_remdups) simp
  qed
  have v3: "players_value (insert ''bob'' {}) = ''bob''"
    by (simp add: players_value_def)
  note t1 = player_list_persisted [OF s1 df ps refl refl refl refl, of quiet_world]
  note t2 = player_list_persisted [OF s2 df ps refl refl refl refl, of quiet_world]
  note t3 = player_list_persisted [OF s3 df ps refl refl refl refl, of quiet_world]
  note t4 = player_list_persisted [OF s2 df0 ps0 refl refl refl refl, of quiet_world]
  from t1 have a: "player_command quiet_world players_server ''player add carl''
     = (players_server, [Print (''[yellow]Player '' @ quoted ''carl'' @ '' is already in the list'')])"
    by (simp add: lw)
  from t2 have b: "player_command quiet_world players_server ''player add bob''
     = (players_server\<lparr>settings_df := Some [(''players'', ''al,bob,carl'')]\<rparr>,
        [Print (''[green]Added player '' @ quoted ''bob'' @ '' to the list''),
         Sql_exec sql_update_players [''al,bob,carl'']])"
    and c: "player_command quiet_world
        (players_server\<lparr>settings_df := Some [(''players'', ''al,bob,carl'')]\<rparr>) ''player add bob''
     = (players_server\<lparr>settings_df := Some [(''players'', ''al,bob,carl'')]\<rparr>,
        [Print (''[yellow]Player '' @ quoted ''bob'' @ '' is already in the list'')])"
    and d: "count_list (split_on (CHR '','') ''al,bob,carl'') ''bob'' = 1"
    unfolding v1 by (simp_all add: lw sq)
  from t3 have e: "player_command quiet_world players_server ''player del carl''
     = (players_server\<lparr>settings_df := Some [(''players'', ''al'')]\<rparr>,
        [Print (''[green]Removed player '' @ quoted ''carl'' @ '' from the list''),
         Sql_exec sql_update_players [''al'']])"
    unfolding v2 by (simp add: lw sq)
  from t4 have f: "player_command quiet_world linux_server ''player add bob''
     = (linux_server\<lparr>settings_df := Some [(''players'', ''bob'')]\<rparr>,
        [Print (''[green]Added player '' @ quoted ''bob'' @ '' to the list''),
         Sql_exec sql_insert_players [''bob'']])"
    unfolding v3 by (simp add: lw sq)
  from a b c d e f show ?thesis by blast
qed

section \<open>The handlers without a catalog\<close>

text \<open>
  Claim C10.  When \<open>resources_df\<close> is \<open>None\<close>, \<open>give\<close>, \<open>enchant\<close> and \<open>effect\<close> on a
  line of at least three tokens do nothing but build the command from the typed tokens
  (with the defaults for the missing optional ones) and hand it to the transport: no
  lookup, no suggestion, no default or clamp of a numeric argument.
\<close>

theorem no_catalog_tokens_verbatim:
  assumes "resources_df srv = None" and "split cmd_line = c # player # tok # rest"
  shows "give_command w srv cmd_line =
           send_and_print srv
             (relay w 0 (''give '' @ player @ '' '' @ tok @ '' '' @ arg_or rest 0 ''1''))
             ''[red]Error giving items: ''
             (''give '' @ player @ '' '' @ tok @ '' '' @ arg_or rest 0 ''1'')
       \<and> enchant_command w srv cmd_line =
           send_and_print srv
             (relay w 0 (''enchant '' @ player @ '' '' @ tok @ '' '' @ arg_or rest 0 ''1''))
             ''[red]Error applying enchantment: ''
             (''enchant '' @ player @ '' '' @ tok @ '' '' @ arg_or rest 0 ''1'')
       \<and> effect_command w srv cmd_line =
           send_and_print srv
             (relay w 0 (''effect '' @ player @ '' '' @ tok @ '' '' @ arg_or rest 0 ''30''
                @ '' '' @ arg_or rest 1 ''0'' @ '' '' @ arg_or rest 2 ''true''))
             ''[red]Error applying effect: ''
             (''effect '' @ player @ '' '' @ tok @ '' '' @ arg_or rest 0 ''30''
                @ '' '' @ arg_or rest 1 ''0'' @ '' '' @ arg_or rest 2 ''true'')
       \<and> transport_calls (give_command w srv cmd_line)
           = [''give '' @ player @ '' '' @ tok @ '' '' @ arg_or rest 0 ''1'']
       \<and> transport_calls (enchant_command w srv cmd_line)
           = [''enchant '' @ player @ '' '' @ tok @ '' '' @ arg_or rest 0 ''1'']
       \<and> transport_calls (effect_command w srv cmd_line)
           = [''effect '' @ player @ '' '' @ tok @ '' '' @ arg_or rest 0 ''30''
                @ '' '' @ arg_or rest 1 ''0'' @ '' '' @ arg_or rest 2 ''true'']"
proof -
  have g: "give_command w srv cmd_line =
           send_and_print srv
             (relay w 0 (''give '' @ player @ '' '' @ tok @ '' '' @ arg_or rest 0 ''1''))
             ''[red]Error giving items: ''
             (''give '' @ player @ '' '' @ tok @ '' '' @ arg_or rest 0 ''1'')"
    using assms by (simp add: give_command_def Let_def arg_or_0)
  have e: "enchant_command w srv cmd_line =
           send_and_print srv
             (relay w 0 (''enchant '' @ player @ '' '' @ tok @ '' '' @ arg_or rest 0 ''1''))
             ''[red]Error applying enchantment: ''
             (''enchant '' @ player @ '' '' @ tok @ '' '' @ arg_or rest 0 ''1'')"
    using assms by (simp add: enchant_command_def Let_def arg_or_0)
  have f: "effect_command w srv cmd_line =
           send_and_print srv
             (relay w 0 (''effect '' @ player @ '' '' @ tok @ '' '' @ arg_or rest 0 ''30''
                @ '' '' @ arg_or rest 1 ''0'' @ '' '' @ arg_or rest 2 ''true''))
             ''[red]Error applying effect: ''
             (''effect '' @ player @ '' '' @ tok @ '' '' @ arg_or rest 0 ''30''
                @ '' '' @ arg_or rest 1 ''0'' @ '' '' @ arg_or rest 2 ''true'')"
    using assms by (simp add: effect_command_def Let_def arg_or_def)
  show ?thesis
    by (simp only: g e f transport_calls_send_and_print simp_thms)
qed

text \<open>The theorem on lines whose arguments no catalog would accept.\<close>

theorem no_catalog_tokens_verbatim_witness:
  "transport_calls (give_command quiet_world (linux_server\<lparr>resources_df := None\<rparr>) ''give steve NoSuchThing x7'')
     = [''give steve NoSuchThing x7'']
   \<and> transport_calls (enchant_command quiet_world (linux_server\<lparr>resources_df := None\<rparr>) ''enchant steve Bogus 99'')
     = [''enchant steve Bogus 99'']
   \<and> transport_calls (effect_command quiet_world (linux_server\<lparr>resources_df := None\<rparr>) ''effect steve Bogus -3 abc'')
     = [''effect steve Bogus -3 abc true'']"
  using no_catalog_tokens_verbatim [of "linux_server\<lparr>resources_df := None\<rparr>" "''give steve NoSuchThing x7''"
          "''give''" "''steve''" "''NoSuchThing''" "[''x7'']" quiet_world]
    no_catalog_tokens_verbatim [of "linux_server\<lparr>resources_df := None\<rparr>" "''enchant steve Bogus 99''"
          "''enchant''" "''steve''" "''Bogus''" "[''99'']" quiet_world]
    no_catalog_tokens_verbatim [of "linux_server\<lparr>resources_df := None\<rparr>" "''effect steve Bogus -3 abc''"
          "''effect''" "''steve''" "''Bogus''" "[''-3'', ''abc'']" quiet_world]
  by (simp add: string_eval catalog_eval)

section \<open>Coordinate validation\<close>





text \<open>
  Outside the amended claim: \<open>tp\<close> skips the check for a token that begins with \<open>~+\<close> or
  \<open>~-\<close>, so such a token reaches the transport even when no number follows.
\<close>

lemma tp_unchecked_signed_offset:
  "\<not> coord_form ''~+abc''
   \<and> transport_calls (tp_command quiet_world linux_server ''tp steve ~ ~+abc ~'')
       = [''tp steve ~ ~+abc ~'']"
proof -
  have s: "split ''tp steve ~ ~+abc ~'' = [''tp'', ''steve'', ''~'', ''~+abc'', ''~'']"
    by (simp add: split_def is_space_def)
  have co: "coord_tokens ''~ ~+abc ~'' = [''~'', ''~+abc'', ''~'']"
    by (simp add: coord_tokens_def replace_comma_def split_def is_space_def)
  have n: "\<not> coord_form ''~+abc''"
    by (simp add: coord_form_def py_float_ok_def strip_sign_def floatnumber_def digitpart_def
          is_digit_def exponent_opt_def lower_def lower_char_def)
  have "transport_calls (tp_command quiet_world linux_server ''tp steve ~ ~+abc ~'')
       = [''tp steve ~ ~+abc ~'']"
    by (simp add: tp_command_def s Let_def linux_server_def resolve_destination_def pos_rows_def
          co check_coord_def)
  with n show ?thesis by simp
qed

end
